theory Spec2Isabelle
  imports Main "HOL-Library.Sublist"
begin

section \<open>Go library functions used by the server\<close>

text \<open>
  Go strings and byte slices are byte sequences: both are modelled as \<open>string\<close>
  (a list of 8-bit characters).  White space and letter case are the ASCII ones, which
  is what the Go functions compute on ASCII input; bytes above 127 are ordinary bytes
  of the model.
\<close>

abbreviation CR :: char where "CR \<equiv> CHR 0x0D"
abbreviation LF :: char where "LF \<equiv> CHR 0x0A"

definition CRLFCRLF :: string where
  "CRLFCRLF = [CR, LF, CR, LF]"

definition LFLF :: string where
  "LFLF = [LF, LF]"

text \<open>\<open>strings.HasPrefix\<close> and \<open>strings.TrimPrefix\<close>.\<close>

definition HasPrefix :: "string \<Rightarrow> string \<Rightarrow> bool" where
  "HasPrefix s p = (take (length p) s = p)"

definition TrimPrefix :: "string \<Rightarrow> string \<Rightarrow> string" where
  "TrimPrefix s p = (if HasPrefix s p then drop (length p) s else s)"

text \<open>\<open>bytes.Index\<close>: the position of the first occurrence, \<open>None\<close> for Go's -1;
  \<open>bytes.Contains\<close> and \<open>strings.Contains\<close>.\<close>

fun Index :: "string \<Rightarrow> string \<Rightarrow> nat option" where
  "Index [] sep = (if sep = [] then Some 0 else None)"
| "Index (c # s) sep =
     (if HasPrefix (c # s) sep then Some 0 else map_option Suc (Index s sep))"

definition Contains :: "string \<Rightarrow> string \<Rightarrow> bool" where
  "Contains s sub = (Index s sub \<noteq> None)"

text \<open>\<open>strings.Split\<close> for a separator of one byte (every call of the source has one):
  all the pieces between the separators, at least one piece.\<close>

fun Split :: "string \<Rightarrow> char \<Rightarrow> string list" where
  "Split [] sep = [[]]"
| "Split (c # s) sep =
     (if c = sep then [] # Split s sep
      else (case Split s sep of [] \<Rightarrow> [[c]] | p # ps \<Rightarrow> (c # p) # ps))"

text \<open>\<open>strings.SplitN(s, sep, 2)\<close>: cut at the first separator only.\<close>

definition SplitN2 :: "string \<Rightarrow> char \<Rightarrow> string list" where
  "SplitN2 s sep =
     (if sep \<in> set s
      then [takeWhile (\<lambda>c. c \<noteq> sep) s, tl (dropWhile (\<lambda>c. c \<noteq> sep) s)]
      else [s])"

definition isSpace :: "char \<Rightarrow> bool" where
  "isSpace c = (c = CHR 0x09 \<or> c = LF \<or> c = CHR 0x0B \<or> c = CHR 0x0C \<or> c = CR \<or> c = CHR '' '')"

definition TrimSpace :: "string \<Rightarrow> string" where
  "TrimSpace s = rev (dropWhile isSpace (rev (dropWhile isSpace s)))"

text \<open>\<open>strings.Fields\<close>: the maximal runs of bytes that are not white space.\<close>

fun fields_from :: "string \<Rightarrow> string \<Rightarrow> string list" where
  "fields_from cur [] = (if cur = [] then [] else [cur])"
| "fields_from cur (c # s) =
     (if isSpace c then (if cur = [] then fields_from [] s else cur # fields_from [] s)
      else fields_from (cur @ [c]) s)"

definition Fields :: "string \<Rightarrow> string list" where
  "Fields s = fields_from [] s"

definition lower_char :: "char \<Rightarrow> char" where
  "lower_char c =
     (case map_of (zip ''ABCDEFGHIJKLMNOPQRSTUVWXYZ'' ''abcdefghijklmnopqrstuvwxyz'') c of
        Some l \<Rightarrow> l
      | None \<Rightarrow> c)"

definition ToLower :: "string \<Rightarrow> string" where
  "ToLower s = map lower_char s"

subsection \<open>Decimal numbers\<close>

definition digit_char :: "nat \<Rightarrow> char" where
  "digit_char d = ''0123456789'' ! d"

definition isDigit :: "char \<Rightarrow> bool" where
  "isDigit c = ((48::nat) \<le> of_char c \<and> of_char c \<le> (57::nat))"

definition digit_val :: "char \<Rightarrow> nat" where
  "digit_val c = of_char c - 48"

text \<open>\<open>fmt.Sprintf("%d", n)\<close>.\<close>

function show_nat :: "nat \<Rightarrow> string" where
  "show_nat n = (if n < 10 then [digit_char n] else show_nat (n div 10) @ [digit_char (n mod 10)])"
  by pat_completeness auto
termination
  by (relation "measure (\<lambda>n. n)") auto

declare show_nat.simps [simp del]

definition show_int :: "int \<Rightarrow> string" where
  "show_int i = (if i < 0 then CHR ''-'' # show_nat (nat (- i)) else show_nat (nat i))"

definition digits_val :: "string \<Rightarrow> nat" where
  "digits_val s = foldl (\<lambda>a c. 10 * a + digit_val c) 0 s"

definition maxInt64 :: int where
  "maxInt64 = 9223372036854775807"

text \<open>\<open>strconv.ParseInt(s, 10, 64)\<close>: an optional sign, then one or more decimal
  digits and nothing else; the value must fit 64 bits.  \<open>None\<close> is the error.\<close>

definition ParseInt :: "string \<Rightarrow> int option" where
  "ParseInt s =
     (let neg = (s \<noteq> [] \<and> hd s = CHR ''-'');
          ds = (if s \<noteq> [] \<and> (hd s = CHR ''+'' \<or> hd s = CHR ''-'') then tl s else s)
      in if ds = [] \<or> \<not> list_all isDigit ds then None
         else if neg then (if int (digits_val ds) \<le> maxInt64 + 1 then Some (- int (digits_val ds)) else None)
         else (if int (digits_val ds) \<le> maxInt64 then Some (int (digits_val ds)) else None))"

text \<open>\<open>fmt.Sscanf(s, "%d", &x)\<close> with \<open>x\<close> initially 0: leading blanks are skipped
  (a newline is an error), an optional sign and the longest run of digits are read and
  converted; on any error \<open>x\<close> keeps its 0.  What follows the digits is not read.\<close>

definition Sscanf_d :: "string \<Rightarrow> int" where
  "Sscanf_d s =
     (let s1 = dropWhile (\<lambda>c. isSpace c \<and> c \<noteq> LF) s;
          sgn = (if s1 \<noteq> [] \<and> (hd s1 = CHR ''+'' \<or> hd s1 = CHR ''-'') then [hd s1] else []);
          s2 = drop (length sgn) s1;
          tok = takeWhile isDigit s2
      in if tok = [] then 0
         else (case ParseInt (sgn @ tok) of None \<Rightarrow> 0 | Some v \<Rightarrow> v))"

subsection \<open>Paths\<close>

text \<open>
  \<open>filepath.Clean\<close> on Unix.  Go walks the path element by element, writing into a
  buffer \<open>out\<close>; \<open>dotdot\<close> is the length of the part of \<open>out\<close> that a later \<open>..\<close>
  must not remove (the leading slash of a rooted path, or leading \<open>..\<close> elements).
  \<open>scan_back\<close> is the inner loop that steps \<open>out.w\<close> back to the previous separator.
\<close>

function scan_back :: "string \<Rightarrow> nat \<Rightarrow> nat \<Rightarrow> nat" where
  "scan_back out dotdot w =
     (if w > dotdot \<and> out ! w \<noteq> CHR ''/'' then scan_back out dotdot (w - 1) else w)"
  by pat_completeness auto
termination
  by (relation "measure (\<lambda>(out, dotdot, w). w)") auto

declare scan_back.simps [simp del]

definition clean_elem :: "bool \<Rightarrow> string \<times> nat \<Rightarrow> string \<Rightarrow> string \<times> nat" where
  "clean_elem rooted st e =
     (case st of (out, dotdot) \<Rightarrow>
        if e = [] then st
        else if e = ''.'' then st
        else if e = ''..'' then
          (if length out > dotdot
           then (take (scan_back out dotdot (length out - 1)) out, dotdot)
           else if \<not> rooted
           then (let out' = (if length out > 0 then out @ ''/'' else out) @ ''..''
                 in (out', length out'))
           else st)
        else ((if (rooted \<and> length out \<noteq> 1) \<or> (\<not> rooted \<and> length out \<noteq> 0)
               then out @ ''/'' else out) @ e, dotdot))"

definition Clean :: "string \<Rightarrow> string" where
  "Clean path =
     (if path = [] then ''.''
      else let rooted = (hd path = CHR ''/'');
               st = foldl (clean_elem rooted) (if rooted then (''/'', 1) else ([], 0))
                      (Split path (CHR ''/''))
           in if fst st = [] then ''.'' else fst st)"

text \<open>\<open>filepath.Join\<close> of two elements: empty elements are ignored, the rest is
  joined with a slash and cleaned.\<close>

definition Join :: "string \<Rightarrow> string \<Rightarrow> string" where
  "Join a b =
     (if a \<noteq> [] then Clean (a @ ''/'' @ b)
      else if b \<noteq> [] then Clean b
      else [])"

text \<open>\<open>filepath.Ext\<close>: the suffix from the last dot of the last element.\<close>

fun ext_from :: "string \<Rightarrow> string \<Rightarrow> string" where
  "ext_from [] acc = []"
| "ext_from (c # r) acc =
     (if c = CHR ''/'' then []
      else if c = CHR ''.'' then c # acc
      else ext_from r (c # acc))"

definition Ext :: "string \<Rightarrow> string" where
  "Ext path = ext_from (rev path) []"

section \<open>Protocol values\<close>

type_synonym HTTPVersion = string

definition HTTP10 :: HTTPVersion where
  "HTTP10 = ''HTTP/1.0''"

definition HTTP11 :: HTTPVersion where
  "HTTP11 = ''HTTP/1.1''"

text \<open>A Go \<open>map[string]string\<close>; reading a missing key gives the empty string.\<close>

type_synonym headers = "string \<rightharpoonup> string"

definition hget :: "headers \<Rightarrow> string \<Rightarrow> string" where
  "hget h k = (case h k of None \<Rightarrow> [] | Some v \<Rightarrow> v)"

record Request =
  Method :: string
  Path :: string
  Version :: HTTPVersion
  Headers :: headers
  Body :: string

record Response =
  rVersion :: HTTPVersion
  StatusCode :: int
  Status :: string
  rHeaders :: headers
  rBody :: string

definition NewResponse :: "int \<Rightarrow> string \<Rightarrow> HTTPVersion \<Rightarrow> string \<Rightarrow> Response" where
  "NewResponse statusCode status version body =
     \<lparr>rVersion = version, StatusCode = statusCode, Status = status,
      rHeaders = Map.empty, rBody = body\<rparr>"

record ProtocolConfig =
  cfgVersion :: HTTPVersion
  cfgKeepAlive :: bool
  MaxConnections :: int
  ConnectionTimeout :: int

definition NewHTTP10Config :: ProtocolConfig where
  "NewHTTP10Config =
     \<lparr>cfgVersion = HTTP10, cfgKeepAlive = False, MaxConnections = 100, ConnectionTimeout = 30\<rparr>"

definition NewHTTP11Config :: ProtocolConfig where
  "NewHTTP11Config =
     \<lparr>cfgVersion = HTTP11, cfgKeepAlive = True, MaxConnections = 1000, ConnectionTimeout = 60\<rparr>"

section \<open>The connection and the environment\<close>

text \<open>
  What the peer does is a script: the results of the successive \<open>Read\<close> calls, each
  either some bytes (none at all when the peer has closed) or an error.  When the
  script is used up the peer stays silent and the receive timeout of the socket makes
  \<open>Read\<close> fail.  A \<open>Read\<close> delivers at most as many bytes as the buffer holds; the
  rest stays queued for the next call.

  What the server writes is recorded, one entry for each \<open>Write\<close> call: \<open>Msg r\<close> is
  the status line, the header lines of \<open>r\<close> (in the unspecified order of a Go map),
  the empty line and the body of \<open>r\<close>; \<open>Raw bs\<close> is the bytes \<open>bs\<close> copied from a file
  (\<open>io.Copy\<close>, taken as one write).  \<open>writable = Some n\<close> says that only the next
  \<open>n\<close> writes succeed; \<open>None\<close> that none fails.

  \<open>touched\<close> is a ghost field: the paths the file server has handed to \<open>os.Stat\<close>,
  \<open>os.ReadFile\<close> and \<open>os.Open\<close>, in order.
\<close>

datatype read_ev = Data string | ReadErr

datatype wire = Msg Response | Raw string

record conn =
  incoming :: "read_ev list"
  sent :: "wire list"
  writable :: "nat option"
  touched :: "string list"

fun ev_size :: "read_ev \<Rightarrow> nat" where
  "ev_size (Data bs) = Suc (length bs)"
| "ev_size ReadErr = 1"

definition pending :: "conn \<Rightarrow> nat" where
  "pending c = sum_list (map ev_size (incoming c))"

text \<open>\<open>conn.Read(buf)\<close> with \<open>len(buf) = n\<close>; \<open>None\<close> is the error.\<close>

definition Read :: "conn \<Rightarrow> nat \<Rightarrow> (string \<times> conn) option" where
  "Read c n =
     (case incoming c of
        [] \<Rightarrow> None
      | ReadErr # rest \<Rightarrow> None
      | Data bs # rest \<Rightarrow>
          if length bs \<le> n then Some (bs, c\<lparr>incoming := rest\<rparr>)
          else Some (take n bs, c\<lparr>incoming := Data (drop n bs) # rest\<rparr>))"

text \<open>\<open>conn.Write\<close>: the new connection state and whether the write succeeded.\<close>

definition Write :: "conn \<Rightarrow> wire \<Rightarrow> conn \<times> bool" where
  "Write c w =
     (case writable c of
        None \<Rightarrow> (c\<lparr>sent := sent c @ [w]\<rparr>, True)
      | Some 0 \<Rightarrow> (c, False)
      | Some (Suc k) \<Rightarrow> (c\<lparr>sent := sent c @ [w], writable := Some k\<rparr>, True))"

text \<open>
  The file system, the clock and the library functions the server calls but does not
  define are parameters.  Instants are nanoseconds since Go's zero time (1 January
  of year 1, 00:00:00 UTC).
\<close>

record FileInfo =
  IsDir :: bool
  ModTime :: int
  Size :: int

datatype stat_result = NotExist | StatErr | Info FileInfo

datatype layout = RFC1123 | RFC850 | ANSIC

record env =
  Stat :: "string \<Rightarrow> stat_result"
  ReadFile :: "string \<Rightarrow> string option"
  OpenFile :: "string \<Rightarrow> string option"
  Now :: int
  TimeParse :: "layout \<Rightarrow> string \<Rightarrow> int option"
  FormatRFC1123 :: "int \<Rightarrow> string"
  TypeByExtension :: "string \<Rightarrow> string"
  Gzip :: "string \<Rightarrow> string option"

definition os_Stat :: "env \<Rightarrow> string \<Rightarrow> conn \<Rightarrow> stat_result \<times> conn" where
  "os_Stat e p c = (Stat e p, c\<lparr>touched := touched c @ [p]\<rparr>)"

definition os_ReadFile :: "env \<Rightarrow> string \<Rightarrow> conn \<Rightarrow> string option \<times> conn" where
  "os_ReadFile e p c = (ReadFile e p, c\<lparr>touched := touched c @ [p]\<rparr>)"

definition os_Open :: "env \<Rightarrow> string \<Rightarrow> conn \<Rightarrow> string option \<times> conn" where
  "os_Open e p c = (OpenFile e p, c\<lparr>touched := touched c @ [p]\<rparr>)"

section \<open>The request parser\<close>

definition MaxRequestSize :: nat where
  "MaxRequestSize = 1048576"

definition MaxHeaderSize :: nat where
  "MaxHeaderSize = 16384"

datatype parse_error =
  IOError | RequestTooLarge | HeaderTooLarge | InvalidFormat | InvalidRequest | InvalidRequestLine

lemma Read_pending: "Read c n = Some (bs, c') \<Longrightarrow> 0 < n \<Longrightarrow> pending c' < pending c"
  by (auto simp: Read_def pending_def split: list.splits read_ev.splits if_splits)

text \<open>The first loop of \<open>ParseRequest\<close>: read until the header block is complete.\<close>

function read_headers :: "conn \<Rightarrow> string \<Rightarrow> parse_error + (string \<times> conn)" where
  "read_headers c allData =
     (case Read c 4096 of
        None \<Rightarrow> Inl IOError
      | Some (bs, c') \<Rightarrow>
          (let allData' = allData @ bs in
           if length allData' > MaxRequestSize then Inl RequestTooLarge
           else if length allData' > MaxHeaderSize \<and> \<not> Contains allData' CRLFCRLF
           then Inl HeaderTooLarge
           else if Contains allData' CRLFCRLF then Inr (allData', c')
           else if Contains allData' LFLF then Inr (allData', c')
           else read_headers c' allData'))"
  by pat_completeness auto
termination
  by (relation "measure (\<lambda>(c, a). pending c)") (auto dest: Read_pending)

declare read_headers.simps [simp del]

text \<open>The second loop: read until the body has the expected length.\<close>

function read_body :: "conn \<Rightarrow> string \<Rightarrow> nat \<Rightarrow> parse_error + (string \<times> conn)" where
  "read_body c currentBodyBytes expectedLength =
     (if length currentBodyBytes < expectedLength
      then (case Read c 4096 of
              None \<Rightarrow> Inl IOError
            | Some (bs, c') \<Rightarrow> read_body c' (currentBodyBytes @ bs) expectedLength)
      else Inr (currentBodyBytes, c))"
  by pat_completeness auto
termination
  by (relation "measure (\<lambda>(c, b, n). pending c)") (auto dest: Read_pending)

declare read_body.simps [simp del]

definition parse_header_line :: "headers \<Rightarrow> string \<Rightarrow> headers" where
  "parse_header_line h l =
     (let line = TrimSpace l in
      if line = [] then h
      else (case SplitN2 line (CHR '':'') of
              [name, val] \<Rightarrow> h(TrimSpace name \<mapsto> TrimSpace val)
            | _ \<Rightarrow> h))"

definition ParseRequest :: "conn \<Rightarrow> parse_error + (Request \<times> conn)" where
  "ParseRequest c =
     (case read_headers c [] of
        Inl e \<Rightarrow> Inl e
      | Inr (allData, c1) \<Rightarrow>
          (case (case Index allData CRLFCRLF of
                   Some idx \<Rightarrow> Some (take idx allData, drop (idx + 4) allData)
                 | None \<Rightarrow>
                     (case Index allData LFLF of
                        Some idx \<Rightarrow> Some (take idx allData, drop (idx + 2) allData)
                      | None \<Rightarrow> None)) of
             None \<Rightarrow> Inl InvalidFormat
           | Some (headerSection, bodySectionBytes) \<Rightarrow>
               (case Split headerSection LF of
                  [] \<Rightarrow> Inl InvalidRequest
                | line0 # lines \<Rightarrow>
                    (case Fields (TrimSpace line0) of
                       m # p # v # _ \<Rightarrow>
                         (let hs = foldl parse_header_line Map.empty lines;
                              req = \<lparr>Method = m, Path = p, Version = v, Headers = hs, Body = []\<rparr>
                          in case hs ''Content-Length'' of
                               Some contentLength \<Rightarrow>
                                 (let expectedLength = Sscanf_d contentLength in
                                  if expectedLength > 0
                                  then (case read_body c1 bodySectionBytes (nat expectedLength) of
                                          Inl e \<Rightarrow> Inl e
                                        | Inr (currentBodyBytes, c2) \<Rightarrow>
                                            Inr (req\<lparr>Body := take (nat expectedLength) currentBodyBytes\<rparr>, c2))
                                  else Inr (req, c1))
                             | None \<Rightarrow> Inr (req\<lparr>Body := bodySectionBytes\<rparr>, c1))
                     | _ \<Rightarrow> Inl InvalidRequestLine))))"

section \<open>The compression middleware\<close>

definition minSizeForCompression :: nat where
  "minSizeForCompression = 1024"

definition compressibleTypes :: "string list" where
  "compressibleTypes =
     [''text/html'', ''text/css'', ''text/javascript'', ''text/plain'', ''text/xml'',
      ''application/json'', ''application/javascript'', ''application/xml'',
      ''application/xml+rss'', ''application/xhtml+xml'', ''image/svg+xml'']"

definition shouldCompress :: "string \<Rightarrow> bool" where
  "shouldCompress contentType =
     (let ct = TrimSpace (ToLower (hd (Split contentType (CHR '';''))))
      in List.member compressibleTypes ct)"

definition acceptsGzip :: "string \<Rightarrow> bool" where
  "acceptsGzip acceptEncoding =
     (if acceptEncoding = [] then False
      else list_ex (\<lambda>encoding. TrimSpace encoding = ''gzip'' \<or> HasPrefix (TrimSpace encoding) ''gzip;'')
             (Split (ToLower acceptEncoding) (CHR '','')))"

definition setVary :: "Response \<Rightarrow> Response" where
  "setVary resp = resp\<lparr>rHeaders := (rHeaders resp)(''Vary'' \<mapsto> ''Accept-Encoding'')\<rparr>"

definition CompressResponse :: "env \<Rightarrow> Response \<Rightarrow> Request \<Rightarrow> Response" where
  "CompressResponse e resp req =
     (if rBody resp = [] then resp
      else if hget (rHeaders resp) ''Content-Encoding'' \<noteq> [] then resp
      else
        (let contentType = (if hget (rHeaders resp) ''Content-Type'' = [] then ''text/plain''
                            else hget (rHeaders resp) ''Content-Type'');
             bodyBytes = rBody resp;
             shouldGzip = (acceptsGzip (hget (Headers req) ''Accept-Encoding'') \<and>
                           shouldCompress contentType \<and>
                           length bodyBytes \<ge> minSizeForCompression)
         in if \<not> shouldGzip
            then (if shouldCompress contentType then setVary resp else resp)
            else (case Gzip e bodyBytes of
                    None \<Rightarrow> setVary resp
                  | Some compressed \<Rightarrow>
                      if length compressed \<ge> length bodyBytes then setVary resp
                      else resp\<lparr>rBody := compressed,
                                rHeaders := (rHeaders resp)
                                  (''Content-Encoding'' \<mapsto> ''gzip'',
                                   ''Content-Length'' \<mapsto> show_int (int (length compressed)),
                                   ''Vary'' \<mapsto> ''Accept-Encoding'')\<rparr>)))"

section \<open>The file server\<close>

definition MaxInMemorySize :: int where
  "MaxInMemorySize = 1024 * 1024"

datatype go_error = WriteFailed | RangeInvalid | ShortCopy

text \<open>The block every sender repeats: the connection headers for the keep-alive flag.\<close>

definition connHeaders :: "bool \<Rightarrow> int \<Rightarrow> headers \<Rightarrow> headers" where
  "connHeaders keepAlive remainingRequests h =
     (if keepAlive
      then h(''Connection'' \<mapsto> ''keep-alive'',
             ''Keep-Alive'' \<mapsto> ''timeout=30, max='' @ show_int remainingRequests)
      else h(''Connection'' \<mapsto> ''close''))"

definition writeMsg :: "conn \<Rightarrow> Response \<Rightarrow> conn \<times> go_error option" where
  "writeMsg c resp = (case Write c (Msg resp) of (c', ok) \<Rightarrow> (c', if ok then None else Some WriteFailed))"

definition sendError ::
  "env \<Rightarrow> conn \<Rightarrow> int \<Rightarrow> string \<Rightarrow> HTTPVersion \<Rightarrow> bool \<Rightarrow> int \<Rightarrow> conn \<times> go_error option" where
  "sendError e c code status version keepAlive remainingRequests =
     (let body = show_int code @ '' - '' @ status;
          resp = NewResponse code status version body;
          h = connHeaders keepAlive remainingRequests
                (Map.empty(''Content-Type'' \<mapsto> ''text/plain'',
                           ''Content-Length'' \<mapsto> show_int (int (length body)),
                           ''Date'' \<mapsto> FormatRFC1123 e (Now e),
                           ''Server'' \<mapsto> ''GoWebServer/1.0''))
      in writeMsg c (resp\<lparr>rHeaders := h\<rparr>))"

definition sendNotModified ::
  "env \<Rightarrow> conn \<Rightarrow> int \<Rightarrow> HTTPVersion \<Rightarrow> bool \<Rightarrow> int \<Rightarrow> conn \<times> go_error option" where
  "sendNotModified e c modTime version keepAlive remainingRequests =
     (let resp = NewResponse 304 ''Not Modified'' version [];
          h = connHeaders keepAlive remainingRequests
                (Map.empty(''Last-Modified'' \<mapsto> FormatRFC1123 e modTime,
                           ''Cache-Control'' \<mapsto> ''public, max-age=3600'',
                           ''Date'' \<mapsto> FormatRFC1123 e (Now e),
                           ''Server'' \<mapsto> ''GoWebServer/1.0''))
      in writeMsg c (resp\<lparr>rHeaders := h\<rparr>))"

definition parseHTTPTime :: "env \<Rightarrow> string \<Rightarrow> int option" where
  "parseHTTPTime e timeStr =
     (case TimeParse e RFC1123 timeStr of
        Some t \<Rightarrow> Some t
      | None \<Rightarrow>
          (case TimeParse e RFC850 timeStr of
             Some t \<Rightarrow> Some t
           | None \<Rightarrow> TimeParse e ANSIC timeStr))"

text \<open>\<open>t.Truncate(time.Second)\<close>: round down to a whole second since the zero time.\<close>

definition TruncateSecond :: "int \<Rightarrow> int" where
  "TruncateSecond t = t - t mod 1000000000"

definition getContentType :: "env \<Rightarrow> string \<Rightarrow> string" where
  "getContentType e filePath =
     (let contentType = TypeByExtension e (Ext filePath)
      in if contentType = [] then ''application/octet-stream'' else contentType)"

datatype range_error = BadFormat | BadSpec | BadStart | BadEnd | OutOfBounds

definition parseRangeHeader :: "string \<Rightarrow> int \<Rightarrow> range_error + (int \<times> int)" where
  "parseRangeHeader rangeHeader fileSize =
     (if \<not> HasPrefix rangeHeader ''bytes='' then Inl BadFormat
      else (case Split (TrimPrefix rangeHeader ''bytes='') (CHR ''-'') of
              [p0, p1] \<Rightarrow>
                (case ParseInt p0 of
                   None \<Rightarrow> Inl BadStart
                 | Some start \<Rightarrow>
                     (case (if p1 = [] then Some (fileSize - 1) else ParseInt p1) of
                        None \<Rightarrow> Inl BadEnd
                      | Some end \<Rightarrow>
                          if start < 0 \<or> end \<ge> fileSize \<or> start > end then Inl OutOfBounds
                          else Inr (start, end)))
            | _ \<Rightarrow> Inl BadSpec))"

definition serveSmallFile ::
  "env \<Rightarrow> conn \<Rightarrow> string \<Rightarrow> int \<Rightarrow> int \<Rightarrow> HTTPVersion \<Rightarrow> Request \<Rightarrow> bool \<Rightarrow> int
     \<Rightarrow> conn \<times> go_error option" where
  "serveSmallFile e c filePath fileSize modTime version req keepAlive remainingRequests =
     (case os_ReadFile e filePath c of
        (None, c1) \<Rightarrow> sendError e c1 500 ''Error reading file'' version keepAlive remainingRequests
      | (Some content, c1) \<Rightarrow>
          (let resp = NewResponse 200 ''OK'' version content;
               h = connHeaders keepAlive remainingRequests
                     (Map.empty(''Content-Type'' \<mapsto> getContentType e filePath,
                                ''Accept-Ranges'' \<mapsto> ''bytes'',
                                ''Last-Modified'' \<mapsto> FormatRFC1123 e modTime,
                                ''Cache-Control'' \<mapsto> ''public, max-age=3600'',
                                ''Date'' \<mapsto> FormatRFC1123 e (Now e),
                                ''Server'' \<mapsto> ''GoWebServer/1.0''))
           in writeMsg c1 (CompressResponse e (resp\<lparr>rHeaders := h\<rparr>) req)))"

definition sendFullFile ::
  "env \<Rightarrow> string \<Rightarrow> string \<Rightarrow> int \<Rightarrow> int \<Rightarrow> HTTPVersion \<Rightarrow> conn \<Rightarrow> bool \<Rightarrow> int
     \<Rightarrow> conn \<times> go_error option" where
  "sendFullFile e file filePath fileSize modTime version c keepAlive remainingRequests =
     (let resp = NewResponse 200 ''OK'' version [];
          h = connHeaders keepAlive remainingRequests
                (Map.empty(''Content-Type'' \<mapsto> getContentType e filePath,
                           ''Content-Length'' \<mapsto> show_int fileSize,
                           ''Accept-Ranges'' \<mapsto> ''bytes'',
                           ''Last-Modified'' \<mapsto> FormatRFC1123 e modTime,
                           ''Cache-Control'' \<mapsto> ''public, max-age=3600'',
                           ''Date'' \<mapsto> FormatRFC1123 e (Now e),
                           ''Server'' \<mapsto> ''GoWebServer/1.0''))
      in case writeMsg c (resp\<lparr>rHeaders := h\<rparr>) of
           (c1, Some err) \<Rightarrow> (c1, Some err)
         | (c1, None) \<Rightarrow>
             (case Write c1 (Raw file) of
                (c2, ok) \<Rightarrow> (c2, if ok then None else Some WriteFailed)))"

text \<open>\<open>file.Seek(start, 0)\<close> followed by \<open>io.CopyN(conn, file, contentLength)\<close>: the
  bytes from \<open>start\<close> on, at most \<open>contentLength\<close> of them; fewer is an error.\<close>

definition sendRangeFile ::
  "env \<Rightarrow> string \<Rightarrow> int \<Rightarrow> int \<Rightarrow> string \<Rightarrow> int \<Rightarrow> int \<Rightarrow> HTTPVersion \<Rightarrow> conn \<Rightarrow> bool \<Rightarrow> int
     \<Rightarrow> conn \<times> go_error option" where
  "sendRangeFile e file start end filePath fileSize modTime version c keepAlive remainingRequests =
     (let contentLength = end - start + 1;
          resp = NewResponse 206 ''Partial Content'' version [];
          h = connHeaders keepAlive remainingRequests
                (Map.empty(''Content-Type'' \<mapsto> getContentType e filePath,
                           ''Content-Length'' \<mapsto> show_int contentLength,
                           ''Content-Range'' \<mapsto>
                              ''bytes '' @ show_int start @ ''-'' @ show_int end @ ''/'' @ show_int fileSize,
                           ''Accept-Ranges'' \<mapsto> ''bytes'',
                           ''Last-Modified'' \<mapsto> FormatRFC1123 e modTime,
                           ''Cache-Control'' \<mapsto> ''public, max-age=3600'',
                           ''Date'' \<mapsto> FormatRFC1123 e (Now e),
                           ''Server'' \<mapsto> ''GoWebServer/1.0''))
      in case writeMsg c (resp\<lparr>rHeaders := h\<rparr>) of
           (c1, Some err) \<Rightarrow> (c1, Some err)
         | (c1, None) \<Rightarrow>
             (let bytes = take (nat contentLength) (drop (nat start) file) in
              case Write c1 (Raw bytes) of
                (c2, ok) \<Rightarrow>
                  (c2, if \<not> ok then Some WriteFailed
                       else if int (length bytes) < contentLength then Some ShortCopy
                       else None)))"

definition serveLargeFile ::
  "env \<Rightarrow> Request \<Rightarrow> conn \<Rightarrow> string \<Rightarrow> int \<Rightarrow> int \<Rightarrow> HTTPVersion \<Rightarrow> bool \<Rightarrow> int
     \<Rightarrow> conn \<times> go_error option" where
  "serveLargeFile e req c filePath fileSize modTime version keepAlive remainingRequests =
     (case os_Open e filePath c of
        (None, c1) \<Rightarrow> sendError e c1 500 ''Error opening file'' version keepAlive remainingRequests
      | (Some file, c1) \<Rightarrow>
          (let rangeHeader = hget (Headers req) ''Range'' in
           if rangeHeader = []
           then sendFullFile e file filePath fileSize modTime version c1 keepAlive remainingRequests
           else (case parseRangeHeader rangeHeader fileSize of
                   Inl err \<Rightarrow>
                     (let resp = NewResponse 416 ''Range Not Satisfiable'' version [];
                          h = connHeaders keepAlive remainingRequests
                                (Map.empty(''Content-Range'' \<mapsto> ''bytes */'' @ show_int fileSize,
                                           ''Date'' \<mapsto> FormatRFC1123 e (Now e),
                                           ''Server'' \<mapsto> ''GoWebServer/1.0''))
                      in case writeMsg c1 (resp\<lparr>rHeaders := h\<rparr>) of
                           (c2, Some writeErr) \<Rightarrow> (c2, Some writeErr)
                         | (c2, None) \<Rightarrow> (c2, Some RangeInvalid))
                 | Inr (start, end) \<Rightarrow>
                     sendRangeFile e file start end filePath fileSize modTime version c1
                       keepAlive remainingRequests)))"

definition ServeFileStream ::
  "env \<Rightarrow> string \<Rightarrow> Request \<Rightarrow> conn \<Rightarrow> bool \<Rightarrow> int \<Rightarrow> conn \<times> go_error option" where
  "ServeFileStream e root req c keepAlive remainingRequests =
     (let path = hd (Split (Path req) (CHR ''?''));
          cleanPath = Clean path
      in if Contains cleanPath ''..''
         then sendError e c 403 ''Forbidden'' (Version req) keepAlive remainingRequests
         else
           (let filePath = Join root cleanPath in
            case os_Stat e filePath c of
              (NotExist, c1) \<Rightarrow>
                sendError e c1 404 ''Not Found'' (Version req) keepAlive remainingRequests
            | (StatErr, c1) \<Rightarrow>
                sendError e c1 500 ''Internal Server Error'' (Version req) keepAlive remainingRequests
            | (Info fileInfo0, c1) \<Rightarrow>
                (case (if IsDir fileInfo0
                       then (case os_Stat e (Join filePath ''index.html'') c1 of
                               (Info newInfo, c2) \<Rightarrow> (Some (Join filePath ''index.html'', newInfo), c2)
                             | (_, c2) \<Rightarrow> (None, c2))
                       else (Some (filePath, fileInfo0), c1)) of
                   (None, c2) \<Rightarrow>
                     sendError e c2 403 ''Directory listing disabled'' (Version req)
                       keepAlive remainingRequests
                 | (Some (filePath', fileInfo), c2) \<Rightarrow>
                     (let modTime = ModTime fileInfo;
                          ifModifiedSince = hget (Headers req) ''If-Modified-Since'';
                          checked = (if modTime \<noteq> 0 \<and> ifModifiedSince \<noteq> []
                                     then parseHTTPTime e ifModifiedSince else None)
                      in case checked of
                           Some ifModTime \<Rightarrow>
                             if \<not> (TruncateSecond modTime > TruncateSecond ifModTime)
                             then sendNotModified e c2 (TruncateSecond modTime) (Version req)
                                    keepAlive remainingRequests
                             else if Size fileInfo \<le> MaxInMemorySize
                             then serveSmallFile e c2 filePath' (Size fileInfo) (TruncateSecond modTime)
                                    (Version req) req keepAlive remainingRequests
                             else serveLargeFile e req c2 filePath' (Size fileInfo) (TruncateSecond modTime)
                                    (Version req) keepAlive remainingRequests
                         | None \<Rightarrow>
                             if Size fileInfo \<le> MaxInMemorySize
                             then serveSmallFile e c2 filePath' (Size fileInfo) modTime
                                    (Version req) req keepAlive remainingRequests
                             else serveLargeFile e req c2 filePath' (Size fileInfo) modTime
                                    (Version req) keepAlive remainingRequests))))"

section \<open>The router and the handlers\<close>

text \<open>The router is the one \<open>NewHTTPHandler\<close> builds: six exact routes, and the
  streaming file server rooted at \<open>./public\<close> as the stream handler.\<close>

definition publicRoot :: string where
  "publicRoot = ''./public''"

definition handleHome :: "env \<Rightarrow> Request \<Rightarrow> Response" where
  "handleHome e req =
     (case ReadFile e ''templates/home.html'' of
        None \<Rightarrow>
          (NewResponse 500 ''Internal Server Error'' (Version req) ''Error loading homepage template'')
            \<lparr>rHeaders := Map.empty(''Content-Type'' \<mapsto> ''text/plain'')\<rparr>
      | Some htmlBytes \<Rightarrow>
          CompressResponse e
            ((NewResponse 200 ''OK'' (Version req) htmlBytes)
               \<lparr>rHeaders := Map.empty(''Content-Type'' \<mapsto> ''text/html; charset=utf-8'')\<rparr>) req)"

definition handleHello :: "env \<Rightarrow> Request \<Rightarrow> Response" where
  "handleHello e req =
     CompressResponse e
       ((NewResponse 200 ''OK'' (Version req) ''Hello from Go Web Server!'')
          \<lparr>rHeaders := Map.empty(''Content-Type'' \<mapsto> ''text/plain'')\<rparr>) req"

definition handleEcho :: "env \<Rightarrow> Request \<Rightarrow> Response" where
  \<open>handleEcho e req =
     CompressResponse e
       ((NewResponse 200 ''OK'' (Version req) (''{"message":"'' @ Body req @ ''"}''))
          \<lparr>rHeaders := Map.empty(''Content-Type'' \<mapsto> ''application/json'')\<rparr>) req\<close>

definition handleGetUsers :: "env \<Rightarrow> Request \<Rightarrow> Response" where
  \<open>handleGetUsers e req =
     CompressResponse e
       ((NewResponse 200 ''OK'' (Version req) ''[{"id":1,"name":"Faizan"},{"id":2,"name":"Hussain"}]'')
          \<lparr>rHeaders := Map.empty(''Content-Type'' \<mapsto> ''application/json'')\<rparr>) req\<close>

definition handleVersion :: "env \<Rightarrow> Request \<Rightarrow> Response" where
  \<open>handleVersion e req =
     CompressResponse e
       ((NewResponse 200 ''OK'' (Version req)
           (''{"protocol":"'' @ Version req @ ''","server":"GoWebServer/1.0"}''))
          \<lparr>rHeaders := Map.empty(''Content-Type'' \<mapsto> ''application/json'')\<rparr>) req\<close>

definition handleFavicon :: "env \<Rightarrow> Request \<Rightarrow> Response" where
  "handleFavicon e req =
     (case ReadFile e ''public/static/favicon.ico'' of
        None \<Rightarrow> NewResponse 404 ''Not Found'' (Version req) ''Favicon not found''
      | Some content \<Rightarrow>
          (NewResponse 200 ''OK'' (Version req) content)
            \<lparr>rHeaders := Map.empty(''Content-Type'' \<mapsto> ''image/x-icon'',
                                   ''Cache-Control'' \<mapsto> ''public, max-age=86400'')\<rparr>)"

definition routes :: "string \<rightharpoonup> (env \<Rightarrow> Request \<Rightarrow> Response)" where
  "routes =
     Map.empty(''GET:/'' \<mapsto> handleHome,
               ''GET:/hello'' \<mapsto> handleHello,
               ''POST:/echo'' \<mapsto> handleEcho,
               ''GET:/api/users'' \<mapsto> handleGetUsers,
               ''GET:/version'' \<mapsto> handleVersion,
               ''GET:/favicon.ico'' \<mapsto> handleFavicon)"

definition Route :: "env \<Rightarrow> Request \<Rightarrow> Response" where
  "Route e req =
     (case routes (Method req @ '':'' @ Path req) of
        Some handler \<Rightarrow> handler e req
      | None \<Rightarrow>
          (NewResponse 404 ''Not Found'' (Version req) ''404 - Page Not Found'')
            \<lparr>rHeaders := Map.empty(''Content-Type'' \<mapsto> ''text/plain'')\<rparr>)"

definition NeedsStreaming :: "Request \<Rightarrow> bool" where
  "NeedsStreaming req =
     ((Method req = ''GET'' \<or> Method req = ''HEAD'') \<and> HasPrefix (Path req) ''/static/'')"

definition RouteStream :: "env \<Rightarrow> Request \<Rightarrow> conn \<Rightarrow> bool \<Rightarrow> int \<Rightarrow> conn \<times> go_error option" where
  "RouteStream e req c keepAlive remainingRequests =
     ServeFileStream e publicRoot req c keepAlive remainingRequests"

section \<open>The server loop\<close>

definition WriteResponse :: "env \<Rightarrow> conn \<Rightarrow> Response \<Rightarrow> conn \<times> go_error option" where
  "WriteResponse e c resp =
     writeMsg c
       (resp\<lparr>rHeaders := (rHeaders resp)
                 (''Content-Length'' \<mapsto> show_int (int (length (rBody resp))),
                  ''Date'' \<mapsto> FormatRFC1123 e (Now e),
                  ''Server'' \<mapsto> ''GoWebServer/1.0'')\<rparr>)"

definition maxRequests :: int where
  "maxRequests = 100"

text \<open>The keep-alive decision at the head of the loop body.\<close>

definition keepAliveOf :: "ProtocolConfig \<Rightarrow> Request \<Rightarrow> bool" where
  "keepAliveOf config request =
     (if cfgVersion config = HTTP10 then False
      else (case Headers request ''Connection'' of
              Some connHeader \<Rightarrow> ToLower connHeader \<noteq> ''close''
            | None \<Rightarrow> True))"

text \<open>The body of the loop of \<open>handleConnection\<close> after the request has been parsed
  and counted: the connection afterwards, and whether the loop goes round again
  (\<open>False\<close>: the function returns, and the deferred \<open>Close\<close> closes the connection).\<close>

definition exchange :: "env \<Rightarrow> ProtocolConfig \<Rightarrow> Request \<Rightarrow> conn \<Rightarrow> int \<Rightarrow> conn \<times> bool" where
  "exchange e config request c requestCount =
     (let keepAlive = keepAliveOf config request in
      if NeedsStreaming request
      then
        (let shouldKeepAlive = (keepAlive \<and> requestCount < maxRequests);
             remainingRequests = maxRequests - requestCount
         in case RouteStream e request c shouldKeepAlive remainingRequests of
              (c', Some err) \<Rightarrow> (c', False)
            | (c', None) \<Rightarrow>
                if \<not> shouldKeepAlive then (c', False)
                else if \<not> keepAlive then (c', False)
                else (c', True))
      else
        (let response = (Route e request)\<lparr>rVersion := cfgVersion config\<rparr>;
             keep = (keepAlive \<and> requestCount < maxRequests);
             response' =
               (if keep
                then response\<lparr>rHeaders := (rHeaders response)
                        (''Connection'' \<mapsto> ''keep-alive'',
                         ''Keep-Alive'' \<mapsto> ''timeout=30, max='' @ show_int (maxRequests - requestCount))\<rparr>
                else response\<lparr>rHeaders := (rHeaders response)(''Connection'' \<mapsto> ''close'')\<rparr>)
         in case WriteResponse e c response' of
              (c', Some err) \<Rightarrow> (c', False)
            | (c', None) \<Rightarrow> if \<not> keep then (c', False) else (c', True)))"

lemma exchange_again: "exchange e config request c n = (c', True) \<Longrightarrow> n < maxRequests"
  by (auto simp: exchange_def Let_def split: if_splits prod.splits option.splits)

text \<open>\<open>handleConnection\<close>: the loop, from a request count; it returns the connection
  as it is when the function returns, and the final request count.\<close>

function handleLoop :: "env \<Rightarrow> ProtocolConfig \<Rightarrow> conn \<Rightarrow> int \<Rightarrow> conn \<times> int" where
  "handleLoop e config c requestCount =
     (case ParseRequest c of
        Inl err \<Rightarrow> (c, requestCount)
      | Inr (request, c1) \<Rightarrow>
          (case exchange e config request c1 (requestCount + 1) of
             (c2, again) \<Rightarrow>
               if again then handleLoop e config c2 (requestCount + 1)
               else (c2, requestCount + 1)))"
  by pat_completeness auto
termination
  by (relation "measure (\<lambda>(e, config, c, n). nat (maxRequests - n))")
     (auto dest!: exchange_again [OF sym] simp: maxRequests_def)

declare handleLoop.simps [simp del]

definition handleConnection :: "env \<Rightarrow> ProtocolConfig \<Rightarrow> conn \<Rightarrow> conn \<times> int" where
  "handleConnection e config c = handleLoop e config c 0"

section \<open>Observations and sample values\<close>

text \<open>\<open>announces Q w\<close>: a written message has a status code and a \<open>Connection\<close>
  header that satisfy \<open>Q\<close>; raw file bytes carry neither.  \<open>emits Q c c'\<close>: from the
  connection state \<open>c\<close> to the later state \<open>c'\<close> only such entries were written.\<close>

fun announces :: "(int \<Rightarrow> string option \<Rightarrow> bool) \<Rightarrow> wire \<Rightarrow> bool" where
  "announces Q (Msg r) = Q (StatusCode r) (rHeaders r ''Connection'')"
| "announces Q (Raw bs) = True"

definition emits :: "(int \<Rightarrow> string option \<Rightarrow> bool) \<Rightarrow> conn \<Rightarrow> conn \<Rightarrow> bool" where
  "emits Q c c' = (\<exists>ws. sent c' = sent c @ ws \<and> list_all (announces Q) ws)"

definition connToken :: "bool \<Rightarrow> string" where
  "connToken keepAlive = (if keepAlive then ''keep-alive'' else ''close'')"

text \<open>The second half of \<open>ServeFileStream\<close>, from the conditional check on, as a
  function of the file found (lemma \<open>ServeFileStream_cases\<close> below relates the two).\<close>

definition deliver ::
  "env \<Rightarrow> Request \<Rightarrow> conn \<Rightarrow> string \<Rightarrow> FileInfo \<Rightarrow> bool \<Rightarrow> int \<Rightarrow> conn \<times> go_error option" where
  "deliver e req c2 filePath' fileInfo keepAlive remainingRequests =
     (let modTime = ModTime fileInfo;
          ifModifiedSince = hget (Headers req) ''If-Modified-Since'';
          checked = (if modTime \<noteq> 0 \<and> ifModifiedSince \<noteq> []
                     then parseHTTPTime e ifModifiedSince else None)
      in case checked of
           Some ifModTime \<Rightarrow>
             if \<not> (TruncateSecond modTime > TruncateSecond ifModTime)
             then sendNotModified e c2 (TruncateSecond modTime) (Version req)
                    keepAlive remainingRequests
             else if Size fileInfo \<le> MaxInMemorySize
             then serveSmallFile e c2 filePath' (Size fileInfo) (TruncateSecond modTime)
                    (Version req) req keepAlive remainingRequests
             else serveLargeFile e req c2 filePath' (Size fileInfo) (TruncateSecond modTime)
                    (Version req) keepAlive remainingRequests
         | None \<Rightarrow>
             if Size fileInfo \<le> MaxInMemorySize
             then serveSmallFile e c2 filePath' (Size fileInfo) modTime
                    (Version req) req keepAlive remainingRequests
             else serveLargeFile e req c2 filePath' (Size fileInfo) modTime
                    (Version req) keepAlive remainingRequests)"

text \<open>A small world for the concrete theorems: one file \<open>public/static/a.txt\<close> holding
  \<open>hello\<close>, nothing else; and a peer that sends the given chunks, one for each read.\<close>

definition demoEnv :: env where
  "demoEnv =
     \<lparr>Stat = (\<lambda>p. if p = ''public/static/a.txt''
                     then Info \<lparr>IsDir = False, ModTime = 1000000000, Size = 5\<rparr> else NotExist),
      ReadFile = (\<lambda>p. if p = ''public/static/a.txt'' then Some ''hello'' else None),
      OpenFile = (\<lambda>p. if p = ''public/static/a.txt'' then Some ''hello'' else None),
      Now = 0,
      TimeParse = (\<lambda>l s. None),
      FormatRFC1123 = (\<lambda>t. []),
      TypeByExtension = (\<lambda>x. []),
      Gzip = (\<lambda>b. None)\<rparr>"

definition peer :: "string list \<Rightarrow> conn" where
  "peer chunks = \<lparr>incoming = map Data chunks, sent = [], writable = None, touched = []\<rparr>"

definition traversalRequest :: string where
  "traversalRequest = ''GET /static/../etc/passwd HTTP/1.1'' @ [CR, LF] @ ''Host: x'' @ [CR, LF, CR, LF]"

definition headRequest :: Request where
  "headRequest = \<lparr>Method = ''HEAD'', Path = ''/static/a.txt'', Version = ''HTTP/1.1'',
                   Headers = [''Host'' \<mapsto> ''x''], Body = []\<rparr>"

definition lowercaseClose :: string where
  "lowercaseClose = ''GET /hello HTTP/1.1'' @ [CR, LF] @ ''connection: close'' @ [CR, LF, CR, LF]"


text \<open>A request whose body is larger than \<open>MaxRequestSize\<close>: a small header block in the
  first read, then 257 reads of 4096 bytes each.\<close>

definition bigHeader :: string where
  "bigHeader = ''POST /echo HTTP/1.1'' @ [CR, LF] @ ''Content-Length: 1052672'' @ [CR, LF, CR, LF]"

definition bigChunk :: string where
  "bigChunk = replicate 4096 (CHR ''a'')"

definition bigBody :: "read_ev list" where
  "bigBody = replicate 257 (Data bigChunk)"

definition sinceHeader :: string where
  "sinceHeader = ''Mon, 02 Jan 2006 15:04:05 GMT''"

definition sinceRequest :: Request where
  "sinceRequest = \<lparr>Method = ''GET'', Path = ''/static/a.txt'', Version = ''HTTP/1.1'',
                    Headers = [''Host'' \<mapsto> ''x'', ''If-Modified-Since'' \<mapsto> sinceHeader], Body = []\<rparr>"

definition datedEnv :: "int \<Rightarrow> env" where
  "datedEnv m =
     demoEnv\<lparr>Stat := (\<lambda>p. if p = ''public/static/a.txt''
                            then Info \<lparr>IsDir = False, ModTime = m, Size = 5\<rparr> else NotExist),
             TimeParse := (\<lambda>l s. if l = RFC1123 \<and> s = sinceHeader
                                   then Some 63271811045000000000 else None)\<rparr>"

text \<open>What the specification calls a satisfiable range header, in its words: the form
  \<open>bytes=<start>-<end?>\<close> with integer literals (as \<open>strconv.ParseInt\<close> reads them)
  for the bounds, an omitted end meaning the last byte, and
  \<open>0 \<le> start \<le> end < file_size\<close>.\<close>

definition satisfiable_range :: "string \<Rightarrow> int \<Rightarrow> int \<Rightarrow> int \<Rightarrow> bool" where
  "satisfiable_range rh N S E =
     (\<exists>a b. rh = ''bytes='' @ a @ ''-'' @ b \<and> CHR ''-'' \<notin> set a \<and> CHR ''-'' \<notin> set b \<and>
            ParseInt a = Some S \<and> (if b = [] then E = N - 1 else ParseInt b = Some E) \<and>
            0 \<le> S \<and> S \<le> E \<and> E < N)"

text \<open>A file larger than the in-memory threshold, and a request whose \<open>Range\<close> header
  has an empty value.\<close>

definition largeFile :: string where
  "largeFile = replicate 2000000 (CHR ''a'')"

definition largeEnv :: env where
  "largeEnv =
     demoEnv\<lparr>Stat := (\<lambda>p. if p = ''public/static/big.bin''
                            then Info \<lparr>IsDir = False, ModTime = 1000000000, Size = 2000000\<rparr>
                            else NotExist),
             OpenFile := (\<lambda>p. if p = ''public/static/big.bin'' then Some largeFile else None)\<rparr>"

definition emptyRangeRequest :: string where
  "emptyRangeRequest = ''GET /static/big.bin HTTP/1.1'' @ [CR, LF] @ ''Range:'' @ [CR, LF, CR, LF]"

definition rangeRequest :: Request where
  "rangeRequest = \<lparr>Method = ''GET'', Path = ''/static/a.txt'', Version = ''HTTP/1.1'',
                    Headers = [''Range'' \<mapsto> ''bytes=1-3''], Body = []\<rparr>"

section \<open>Checks of the library model on known values\<close>

lemma Clean_examples:
  "Clean ''/static/../etc/passwd'' = ''/etc/passwd''"
  "Clean ''abc/def/../../..'' = ''..''"
  "Clean ''/../abc'' = ''/abc''"
  "Clean ''abc//./../def/'' = ''def''"
  "Clean ''../../abc/../x'' = ''../../x''"
  by code_simp+


section \<open>Compression\<close>

lemma hget_upd: "hget (h(k \<mapsto> v)) k' = (if k' = k then v else hget h k')"
  by (simp add: hget_def)

lemma setVary_simps:
  "rBody (setVary r) = rBody r"
  "hget (rHeaders (setVary r)) ''Content-Encoding'' = hget (rHeaders r) ''Content-Encoding''"
  "hget (rHeaders (setVary r)) ''Content-Type'' = hget (rHeaders r) ''Content-Type''"
  "setVary (setVary r) = setVary r"
  by (simp_all add: setVary_def hget_upd)

lemma Compress_encoded:
  "hget (rHeaders r) ''Content-Encoding'' \<noteq> [] \<Longrightarrow> CompressResponse e r req = r"
  by (simp add: CompressResponse_def)

lemma Compress_empty: "rBody r = [] \<Longrightarrow> CompressResponse e r req = r"
  by (simp add: CompressResponse_def)


text \<open>
  Claim C9.  The compression middleware is idempotent: for every response, request and
  gzip encoder, applying \<open>CompressResponse\<close> a second time leaves the response, body
  and headers, exactly as the first application left it.
\<close>

theorem CompressResponse_idempotent:
  "CompressResponse e (CompressResponse e resp req) req = CompressResponse e resp req"
proof (cases "rBody resp = [] \<or> hget (rHeaders resp) ''Content-Encoding'' \<noteq> []")
  case True
  then have "CompressResponse e resp req = resp"
    by (auto simp: Compress_empty Compress_encoded)
  then show ?thesis by simp
next
  case False
  define ct where "ct = (if hget (rHeaders resp) ''Content-Type'' = [] then ''text/plain''
                            else hget (rHeaders resp) ''Content-Type'')"
  define sg where "sg = (acceptsGzip (hget (Headers req) ''Accept-Encoding'') \<and>
                           shouldCompress ct \<and> length (rBody resp) \<ge> minSizeForCompression)"
  have vary: "CompressResponse e (setVary resp) req = setVary resp"
    if "\<not> sg \<or> Gzip e (rBody resp) = None \<or>
        (\<exists>z. Gzip e (rBody resp) = Some z \<and> length z \<ge> length (rBody resp))"
       "sg \<or> shouldCompress ct"
    using that False unfolding CompressResponse_def Let_def setVary_simps
    by (auto simp: ct_def sg_def setVary_simps)
  show ?thesis
  proof (cases sg)
    case nsg: False
    show ?thesis
    proof (cases "shouldCompress ct")
      case True
      then have "CompressResponse e resp req = setVary resp"
        using False nsg unfolding CompressResponse_def Let_def by (auto simp: ct_def sg_def)
      then show ?thesis using vary nsg True by simp
    next
      case nsc: False
      then have "CompressResponse e resp req = resp"
        using False nsg unfolding CompressResponse_def Let_def by (auto simp: ct_def sg_def)
      then show ?thesis by simp
    qed
  next
    case True
    show ?thesis
    proof (cases "Gzip e (rBody resp)")
      case None
      then have "CompressResponse e resp req = setVary resp"
        using False True unfolding CompressResponse_def Let_def by (auto simp: ct_def sg_def)
      then show ?thesis using vary None True by simp
    next
      case (Some z)
      show ?thesis
      proof (cases "length z \<ge> length (rBody resp)")
        case big: True
        then have "CompressResponse e resp req = setVary resp"
          using False True Some unfolding CompressResponse_def Let_def by (auto simp: ct_def sg_def)
        then show ?thesis using vary Some True big by simp
      next
        case small: False
        then have "hget (rHeaders (CompressResponse e resp req)) ''Content-Encoding'' \<noteq> []"
          using False True Some unfolding CompressResponse_def Let_def
          by (auto simp: ct_def sg_def hget_upd)
        then show ?thesis by (rule Compress_encoded)
      qed
    qed
  qed
qed



section \<open>Evaluating the parser and the number printer\<close>

lemmas parse_eval0 =
  ParseRequest_def read_headers.simps Read_def Contains_def HasPrefix_def
  CRLFCRLF_def LFLF_def MaxRequestSize_def MaxHeaderSize_def Fields_def TrimSpace_def isSpace_def
  parse_header_line_def SplitN2_def Sscanf_d_def ParseInt_def isDigit_def digits_val_def
  digit_val_def maxInt64_def

lemmas parse_eval = parse_eval0 read_body.simps

lemmas path_eval = Clean_def clean_elem_def scan_back.simps Join_def Contains_def HasPrefix_def publicRoot_def

lemma parse_lowercaseClose:
  "incoming c = Data lowercaseClose # rest \<Longrightarrow> ParseRequest c =
     Inr (\<lparr>Method = ''GET'', Path = ''/hello'', Version = ''HTTP/1.1'',
           Headers = [''connection'' \<mapsto> ''close''], Body = []\<rparr>, c\<lparr>incoming := rest\<rparr>)"
  by (simp add: parse_eval lowercaseClose_def)

lemma parse_traversal:
  "ParseRequest (peer [traversalRequest]) =
     Inr (\<lparr>Method = ''GET'', Path = ''/static/../etc/passwd'', Version = ''HTTP/1.1'',
           Headers = [''Host'' \<mapsto> ''x''], Body = []\<rparr>, peer [])"
  by (simp add: peer_def parse_eval traversalRequest_def)

lemma parse_nothing: "incoming c = [] \<Longrightarrow> ParseRequest c = Inl IOError"
  by (simp add: parse_eval)

lemma peer_simps:
  "incoming (peer xs) = map Data xs" "sent (peer xs) = []" "writable (peer xs) = None"
  "touched (peer xs) = []"
  by (simp_all add: peer_def)

lemma show_int_eval: "show_int 404 = ''404''" "show_int 403 = ''403''" "show_int 15 = ''15''" "show_int 99 = ''99''"
  by (simp_all add: show_int_def show_nat.simps digit_char_def)


section \<open>The keep-alive cap\<close>

lemma handleLoop_count: "n < maxRequests \<Longrightarrow> snd (handleLoop e config c n) \<le> maxRequests"
proof (induction e config c n rule: handleLoop.induct)
  case (1 e config c requestCount)
  show ?case
  proof (cases "ParseRequest c")
    case (Inl err)
    then show ?thesis using 1(2) by (simp add: handleLoop.simps)
  next
    case (Inr rc)
    obtain request c1 where rc: "rc = (request, c1)" by (cases rc)
    obtain c2 again where ex: "exchange e config request c1 (requestCount + 1) = (c2, again)"
      by (cases "exchange e config request c1 (requestCount + 1)")
    show ?thesis
    proof (cases again)
      case True
      with ex have "requestCount + 1 < maxRequests" by (auto dest: exchange_again)
      then have "snd (handleLoop e config c2 (requestCount + 1)) \<le> maxRequests"
        using 1(1)[OF Inr rc[symmetric] ex[symmetric] True] by simp
      then show ?thesis using Inr rc ex True by (simp add: handleLoop.simps[of e config c])
    next
      case False
      then show ?thesis using Inr rc ex 1(2) by (simp add: handleLoop.simps[of e config c])
    qed
  qed
qed

lemma emits_same: "sent c' = sent c \<Longrightarrow> emits Q c c'"
  by (simp add: emits_def)

lemma emits_trans: "emits Q c c1 \<Longrightarrow> emits Q c1 c2 \<Longrightarrow> emits Q c c2"
  by (auto simp: emits_def)

lemma emits_from: "sent c1 = sent c \<Longrightarrow> emits Q c1 c2 \<Longrightarrow> emits Q c c2"
  by (auto simp: emits_def)

lemma emits_drop: "emits Q c c' \<Longrightarrow> list_all (announces Q) (drop (length (sent c)) (sent c'))"
  by (auto simp: emits_def)

lemma Write_emits: "announces Q w \<Longrightarrow> emits Q c (fst (Write c w))"
  by (auto simp: emits_def Write_def split: option.splits nat.splits)

lemma writeMsg_emits:
  "Q (StatusCode r) (rHeaders r ''Connection'') \<Longrightarrow> emits Q c (fst (writeMsg c r))"
  using Write_emits[of Q "Msg r" c] by (auto simp: writeMsg_def split: prod.splits)

lemma connHeaders_Connection: "connHeaders ka n h ''Connection'' = Some (connToken ka)"
  by (simp add: connHeaders_def connToken_def)

lemma Compress_Connection:
  "rHeaders (CompressResponse e r req) ''Connection'' = rHeaders r ''Connection''"
  "StatusCode (CompressResponse e r req) = StatusCode r"
  by (simp_all add: CompressResponse_def Let_def setVary_def split: option.splits)

lemma sendError_emits:
  "Q code (Some (connToken ka)) \<Longrightarrow> emits Q c (fst (sendError e c code st v ka n))"
  by (simp add: sendError_def Let_def NewResponse_def writeMsg_emits connHeaders_Connection)

lemma sendNotModified_emits:
  "Q 304 (Some (connToken ka)) \<Longrightarrow> emits Q c (fst (sendNotModified e c m v ka n))"
  by (simp add: sendNotModified_def Let_def NewResponse_def writeMsg_emits connHeaders_Connection)

lemma os_sent [simp]:
  "sent (snd (os_Stat e p c)) = sent c"
  "sent (snd (os_ReadFile e p c)) = sent c"
  "sent (snd (os_Open e p c)) = sent c"
  by (simp_all add: os_Stat_def os_ReadFile_def os_Open_def)

lemma serveSmallFile_emits:
  assumes "Q 200 (Some (connToken ka))" and "Q 500 (Some (connToken ka))"
  shows "emits Q c (fst (serveSmallFile e c fp sz m v req ka n))"
proof (cases "ReadFile e fp")
  case None
  then show ?thesis using assms(2)
    by (auto simp: serveSmallFile_def os_ReadFile_def intro!: emits_from[OF _ sendError_emits])
next
  case (Some content)
  then show ?thesis using assms(1)
    by (auto simp: serveSmallFile_def os_ReadFile_def Let_def NewResponse_def Compress_Connection
        connHeaders_Connection intro!: emits_from[OF _ writeMsg_emits])
qed

lemma emits_writeMsg:
  "Q (StatusCode r) (rHeaders r ''Connection'') \<Longrightarrow> writeMsg c r = (c1, err) \<Longrightarrow> emits Q c c1"
  using writeMsg_emits[of Q r c] by simp

lemma emits_Write: "announces Q w \<Longrightarrow> Write c w = (c1, ok) \<Longrightarrow> emits Q c c1"
  using Write_emits[of Q w c] by simp

lemma two_writes_emits:
  assumes "Q (StatusCode r) (rHeaders r ''Connection'')"
  shows "emits Q c (fst (case writeMsg c r of
           (c1, Some err) \<Rightarrow> (c1, Some err)
         | (c1, None) \<Rightarrow> (case Write c1 (Raw bs) of (c2, ok) \<Rightarrow> (c2, f ok))))"
proof -
  obtain c1 err where w1: "writeMsg c r = (c1, err)" by (cases "writeMsg c r")
  have a: "emits Q c c1" using emits_writeMsg[of Q r, OF assms w1] .
  show ?thesis
  proof (cases err)
    case None
    obtain c2 ok where w2: "Write c1 (Raw bs) = (c2, ok)" by (cases "Write c1 (Raw bs)")
    have "emits Q c1 c2" using emits_Write[of Q "Raw bs", OF _ w2] by simp
    with a have "emits Q c c2" by (rule emits_trans)
    then show ?thesis using w1 None w2 by simp
  next
    case (Some x)
    then show ?thesis using w1 a by simp
  qed
qed

lemma sendFullFile_emits:
  "Q 200 (Some (connToken ka)) \<Longrightarrow> emits Q c (fst (sendFullFile e file fp sz m v c ka n))"
  unfolding sendFullFile_def Let_def
  by (rule two_writes_emits) (simp add: NewResponse_def connHeaders_Connection)

lemma sendRangeFile_emits:
  "Q 206 (Some (connToken ka)) \<Longrightarrow> emits Q c (fst (sendRangeFile e file s t fp sz m v c ka n))"
  unfolding sendRangeFile_def Let_def
  by (rule two_writes_emits) (simp add: NewResponse_def connHeaders_Connection)

lemma fst_case_err [simp]:
  "fst (case p of (a, None) \<Rightarrow> (a, g a) | (a, Some x) \<Rightarrow> (a, f a x)) = fst p"
  by (auto split: prod.splits option.splits)

lemma serveLargeFile_emits:
  assumes "Q 200 (Some (connToken ka))" and "Q 206 (Some (connToken ka))"
    and "Q 416 (Some (connToken ka))" and "Q 500 (Some (connToken ka))"
  shows "emits Q c (fst (serveLargeFile e req c fp sz m v ka n))"
proof (cases "OpenFile e fp")
  case None
  then show ?thesis using assms(4)
    by (auto simp: serveLargeFile_def os_Open_def intro!: emits_from[OF _ sendError_emits])
next
  case (Some fl)
  show ?thesis
  proof (cases "hget (Headers req) ''Range'' = []")
    case True
    then show ?thesis using Some assms(1)
      by (auto simp: serveLargeFile_def os_Open_def intro!: emits_from[OF _ sendFullFile_emits])
  next
    case False
    show ?thesis
    proof (cases "parseRangeHeader (hget (Headers req) ''Range'') sz")
      case (Inl err)
      then show ?thesis using Some False assms(3)
        by (auto simp: serveLargeFile_def os_Open_def Let_def NewResponse_def connHeaders_Connection
            intro!: emits_from[OF _ writeMsg_emits])
    next
      case (Inr se)
      then show ?thesis using Some False assms(2)
        by (cases se) (auto simp: serveLargeFile_def os_Open_def intro!: emits_from[OF _ sendRangeFile_emits])
    qed
  qed
qed


lemma ServeFileStream_cases:
  "ServeFileStream e root req c ka n =
     (let cleanPath = Clean (hd (Split (Path req) (CHR ''?''))); filePath = Join root cleanPath in
      if Contains cleanPath ''..'' then sendError e c 403 ''Forbidden'' (Version req) ka n
      else (case Stat e filePath of
              NotExist \<Rightarrow> sendError e (c\<lparr>touched := touched c @ [filePath]\<rparr>) 404 ''Not Found'' (Version req) ka n
            | StatErr \<Rightarrow> sendError e (c\<lparr>touched := touched c @ [filePath]\<rparr>) 500 ''Internal Server Error'' (Version req) ka n
            | Info fi0 \<Rightarrow>
                if IsDir fi0
                then (case Stat e (Join filePath ''index.html'') of
                        Info fi \<Rightarrow> deliver e req (c\<lparr>touched := touched c @ [filePath, Join filePath ''index.html'']\<rparr>)
                                     (Join filePath ''index.html'') fi ka n
                      | _ \<Rightarrow> sendError e (c\<lparr>touched := touched c @ [filePath, Join filePath ''index.html'']\<rparr>)
                                403 ''Directory listing disabled'' (Version req) ka n)
                else deliver e req (c\<lparr>touched := touched c @ [filePath]\<rparr>) filePath fi0 ka n))"
  by (simp add: ServeFileStream_def deliver_def Let_def os_Stat_def split: stat_result.splits)

lemma deliver_emits:
  assumes "\<And>code. Q code (Some (connToken ka))"
  shows "emits Q c (fst (deliver e req c fp fi ka n))"
  unfolding deliver_def Let_def
  by (auto split: option.splits
      intro!: sendNotModified_emits serveSmallFile_emits serveLargeFile_emits assms)

lemma ServeFileStream_emits:
  assumes "\<And>code. Q code (Some (connToken ka))"
  shows "emits Q c (fst (ServeFileStream e root req c ka n))"
  unfolding ServeFileStream_cases Let_def
  by (auto split: stat_result.splits
      intro!: sendError_emits emits_from[OF _ sendError_emits] emits_from[OF _ deliver_emits] assms)


lemma WriteResponse_emits:
  "Q (StatusCode r) (rHeaders r ''Connection'') \<Longrightarrow> emits Q c (fst (WriteResponse e c r))"
  by (simp add: WriteResponse_def writeMsg_emits)

lemma exchange_closing:
  "maxRequests \<le> n \<Longrightarrow> emits (\<lambda>code h. h = Some ''close'') c (fst (exchange e config request c n))"
  unfolding exchange_def Let_def RouteStream_def
  by (auto simp: connToken_def intro!: ServeFileStream_emits WriteResponse_emits)

lemma exchange_stops: "maxRequests \<le> n \<Longrightarrow> \<not> snd (exchange e config request c n)"
  using exchange_again[of e config request c n "fst (exchange e config request c n)"]
  by (cases "exchange e config request c n") auto

text \<open>
  Claim C8.  A connection handles at most \<open>maxRequests = 100\<close> exchanges: the request
  count \<open>handleConnection\<close> ends with is at most 100; and in the exchange that brings
  the count to 100 the loop never goes round again, on the streaming branch as on the
  buffered one, and everything it writes announces the close.
\<close>

theorem keepalive_cap:
  "snd (handleConnection e config c) \<le> 100 \<and>
   maxRequests = 100 \<and>
   \<not> snd (exchange e config request c1 maxRequests) \<and>
   list_all (announces (\<lambda>code h. h = Some ''close''))
     (drop (length (sent c1)) (sent (fst (exchange e config request c1 maxRequests))))"
proof -
  have "emits (\<lambda>code h. h = Some ''close'') c1 (fst (exchange e config request c1 maxRequests))"
    by (rule exchange_closing) simp
  then have "list_all (announces (\<lambda>code h. h = Some ''close''))
     (drop (length (sent c1)) (sent (fst (exchange e config request c1 maxRequests))))"
    by (rule emits_drop)
  moreover have "snd (handleLoop e config c 0) \<le> maxRequests"
    by (rule handleLoop_count) (simp add: maxRequests_def)
  ultimately show ?thesis
    using exchange_stops[of maxRequests e config request c1]
    by (simp add: handleConnection_def maxRequests_def)
qed

section \<open>HEAD on static files\<close>

lemma Compress_method: "CompressResponse e r (req\<lparr>Method := m\<rparr>) = CompressResponse e r req"
  by (simp add: CompressResponse_def)

lemma small_method:
  "serveSmallFile e c fp sz mt v (req\<lparr>Method := m\<rparr>) ka n = serveSmallFile e c fp sz mt v req ka n"
  by (simp add: serveSmallFile_def Compress_method Let_def cong: prod.case_cong option.case_cong)

lemma large_method:
  "serveLargeFile e (req\<lparr>Method := m\<rparr>) c fp sz mt v ka n = serveLargeFile e req c fp sz mt v ka n"
  by (simp add: serveLargeFile_def Let_def cong: prod.case_cong option.case_cong)

lemma serve_method: "ServeFileStream e root (req\<lparr>Method := m\<rparr>) c ka n = ServeFileStream e root req c ka n"
  by (simp add: ServeFileStream_def small_method large_method Let_def
      cong: prod.case_cong option.case_cong stat_result.case_cong if_cong)

text \<open>
  Claim C10.  A \<open>HEAD\<close> request for a path under \<open>/static/\<close> takes the streaming
  branch and is answered exactly as the same request with method \<open>GET\<close>: the file
  server never reads the method.  In particular the answer for a small file carries
  the whole file as its body.
\<close>

theorem head_served_as_get:
  assumes "Method req = ''HEAD''" and "HasPrefix (Path req) ''/static/''"
  shows "NeedsStreaming req \<and>
         RouteStream e req c ka n = RouteStream e (req\<lparr>Method := ''GET''\<rparr>) c ka n \<and>
         exchange e config req c k = exchange e config (req\<lparr>Method := ''GET''\<rparr>) c k \<and>
         (\<forall>fi content.
            \<not> Contains (Clean (hd (Split (Path req) (CHR ''?'')))) ''..'' \<and>
            Stat e (Join publicRoot (Clean (hd (Split (Path req) (CHR ''?''))))) = Info fi \<and>
            \<not> IsDir fi \<and> Size fi \<le> MaxInMemorySize \<and>
            ReadFile e (Join publicRoot (Clean (hd (Split (Path req) (CHR ''?''))))) = Some content \<and>
            hget (Headers req) ''If-Modified-Since'' = [] \<and>
            hget (Headers req) ''Accept-Encoding'' = [] \<and> writable c = None
            \<longrightarrow> (\<exists>r. sent (fst (RouteStream e req c ka n)) = sent c @ [Msg r] \<and>
                     StatusCode r = 200 \<and> rBody r = content))"
proof -
  have ns: "NeedsStreaming req" "NeedsStreaming (req\<lparr>Method := ''GET''\<rparr>)"
    using assms by (simp_all add: NeedsStreaming_def)
  have rs: "RouteStream e (req\<lparr>Method := ''GET''\<rparr>) c ka n = RouteStream e req c ka n" for ka n
    by (simp add: RouteStream_def serve_method)
  have ex: "exchange e config req c k = exchange e config (req\<lparr>Method := ''GET''\<rparr>) c k"
    unfolding exchange_def using ns by (simp add: rs keepAliveOf_def)
  have body: "\<exists>r. sent (fst (RouteStream e req c ka n)) = sent c @ [Msg r] \<and>
                     StatusCode r = 200 \<and> rBody r = content"
    if "\<not> Contains (Clean (hd (Split (Path req) (CHR ''?'')))) ''..''"
       "Stat e (Join publicRoot (Clean (hd (Split (Path req) (CHR ''?''))))) = Info fi"
       "\<not> IsDir fi" "Size fi \<le> MaxInMemorySize"
       "ReadFile e (Join publicRoot (Clean (hd (Split (Path req) (CHR ''?''))))) = Some content"
       "hget (Headers req) ''If-Modified-Since'' = []"
       "hget (Headers req) ''Accept-Encoding'' = []" "writable c = None" for fi content
    using that
    by (simp add: RouteStream_def ServeFileStream_def os_Stat_def serveSmallFile_def os_ReadFile_def
        Let_def writeMsg_def Write_def CompressResponse_def acceptsGzip_def setVary_def NewResponse_def)
  show ?thesis
  proof (intro conjI allI impI)
    show "NeedsStreaming req" by (rule ns)
    show "RouteStream e req c ka n = RouteStream e (req\<lparr>Method := ''GET''\<rparr>) c ka n"
      by (simp add: rs)
    show "exchange e config req c k = exchange e config (req\<lparr>Method := ''GET''\<rparr>) c k"
      by (rule ex)
  next
    fix fi content
    assume "\<not> Contains (Clean (hd (Split (Path req) (CHR ''?'')))) ''..'' \<and>
            Stat e (Join publicRoot (Clean (hd (Split (Path req) (CHR ''?''))))) = Info fi \<and>
            \<not> IsDir fi \<and> Size fi \<le> MaxInMemorySize \<and>
            ReadFile e (Join publicRoot (Clean (hd (Split (Path req) (CHR ''?''))))) = Some content \<and>
            hget (Headers req) ''If-Modified-Since'' = [] \<and>
            hget (Headers req) ''Accept-Encoding'' = [] \<and> writable c = None"
    then show "\<exists>r. sent (fst (RouteStream e req c ka n)) = sent c @ [Msg r] \<and>
                     StatusCode r = 200 \<and> rBody r = content"
      using body[of fi content] by simp
  qed
qed



theorem head_served_as_get_witness:
  "NeedsStreaming headRequest \<and>
   (\<exists>r. sent (fst (RouteStream demoEnv headRequest (peer []) True 99)) = [Msg r] \<and>
        StatusCode r = 200 \<and> rBody r = ''hello'')"
proof -
  have h: "Method headRequest = ''HEAD''" "HasPrefix (Path headRequest) ''/static/''"
    by (simp_all add: headRequest_def HasPrefix_def)
  note t = head_served_as_get[OF h, of demoEnv "peer []" True 99 NewHTTP11Config 1]
  have p: "Join publicRoot (Clean (hd (Split (Path headRequest) (CHR ''?'')))) = ''public/static/a.txt''"
    "\<not> Contains (Clean (hd (Split (Path headRequest) (CHR ''?'')))) ''..''"
    by (simp_all add: headRequest_def path_eval)
  have "\<exists>r. sent (fst (RouteStream demoEnv headRequest (peer []) True 99)) = sent (peer []) @ [Msg r] \<and>
        StatusCode r = 200 \<and> rBody r = ''hello''"
    using t p
    by (elim conjE allE[of _ "\<lparr>IsDir = False, ModTime = 1000000000, Size = 5\<rparr>"] allE[of _ "''hello''"])
       (simp add: demoEnv_def peer_simps MaxInMemorySize_def hget_def headRequest_def)
  with t show ?thesis by (simp add: peer_simps)
qed


section \<open>The traversal request\<close>

text \<open>
  Claim C1 as stated (status 403 and body \<open>403 - Forbidden\<close> for the request
  \<open>GET /static/../etc/passwd\<close>) fails: with no such file under the root the server
  answers 404 with body \<open>404 - Not Found\<close>.
\<close>

theorem traversal_request_counterexample:
  "(case sent (fst (handleConnection demoEnv NewHTTP11Config (peer [traversalRequest]))) of
      [Msg r] \<Rightarrow> StatusCode r = 404 \<and> rBody r = ''404 - Not Found''
    | _ \<Rightarrow> False)"
  by (simp add: handleConnection_def handleLoop.simps parse_traversal peer_simps parse_nothing
      exchange_def keepAliveOf_def NewHTTP11Config_def HTTP10_def HTTP11_def NeedsStreaming_def
      RouteStream_def ServeFileStream_def path_eval os_Stat_def demoEnv_def sendError_def writeMsg_def
      Write_def NewResponse_def show_int_eval maxRequests_def Let_def)

text \<open>
  Claim C1, amended.  For a request with the path \<open>/static/../etc/passwd\<close> the
  cleaned path is \<open>/etc/passwd\<close>; no \<open>..\<close> is left in it, so the 403 guard does not
  fire; the file looked up is \<open>public/etc/passwd\<close>, inside the root; and when no such
  file exists the response has status 404 and body \<open>404 - Not Found\<close>.
\<close>

theorem traversal_request_resolved:
  assumes "Path req = ''/static/../etc/passwd''"
  shows "Clean (hd (Split (Path req) (CHR ''?''))) = ''/etc/passwd'' \<and>
         \<not> Contains ''/etc/passwd'' ''..'' \<and>
         Join publicRoot ''/etc/passwd'' = ''public/etc/passwd'' \<and>
         (Stat e ''public/etc/passwd'' = NotExist \<and> writable c = None \<longrightarrow>
            (\<exists>r. sent (fst (RouteStream e req c ka n)) = sent c @ [Msg r] \<and>
                 StatusCode r = 404 \<and> rBody r = ''404 - Not Found'') \<and>
            touched (fst (RouteStream e req c ka n)) = touched c @ [''public/etc/passwd''])"
proof -
  have a: "Clean (hd (Split (Path req) (CHR ''?''))) = ''/etc/passwd''"
    using assms by (simp add: path_eval)
  have b: "\<not> Contains ''/etc/passwd'' ''..''" by (simp add: path_eval)
  have j: "Join publicRoot ''/etc/passwd'' = ''public/etc/passwd''" by (simp add: path_eval)
  have "(\<exists>r. sent (fst (RouteStream e req c ka n)) = sent c @ [Msg r] \<and>
                 StatusCode r = 404 \<and> rBody r = ''404 - Not Found'') \<and>
            touched (fst (RouteStream e req c ka n)) = touched c @ [''public/etc/passwd'']"
    if "Stat e ''public/etc/passwd'' = NotExist" "writable c = None"
    using that a b j
    by (simp add: RouteStream_def ServeFileStream_def os_Stat_def sendError_def writeMsg_def
        Write_def NewResponse_def show_int_eval Let_def)
  with a b j show ?thesis by blast
qed

theorem traversal_request_resolved_witness:
  "\<exists>r. sent (fst (RouteStream demoEnv
           \<lparr>Method = ''GET'', Path = ''/static/../etc/passwd'', Version = ''HTTP/1.1'',
            Headers = [''Host'' \<mapsto> ''x''], Body = []\<rparr> (peer []) True 99)) = [Msg r] \<and>
        StatusCode r = 404 \<and> rBody r = ''404 - Not Found''"
  using traversal_request_resolved[of "\<lparr>Method = ''GET'', Path = ''/static/../etc/passwd'', Version = ''HTTP/1.1'',
            Headers = [''Host'' \<mapsto> ''x''], Body = []\<rparr>" demoEnv "peer []" True 99]
  by (simp add: demoEnv_def peer_simps)


section \<open>The Connection header\<close>

text \<open>
  Claim C4 as stated (a \<open>close\<close> is honoured whatever the casing of the header name)
  fails: a request received with \<open>connection: close\<close> is stored under the name
  \<open>connection\<close>, the lookup of \<open>Connection\<close> finds nothing, the loop keeps the
  connection alive and serves a second request on it.
\<close>

theorem connection_name_case_counterexample:
  "(case ParseRequest (peer [lowercaseClose]) of
      Inl err \<Rightarrow> False
    | Inr (request, c1) \<Rightarrow>
        Headers request ''connection'' = Some ''close'' \<and> Headers request ''Connection'' = None \<and>
        keepAliveOf NewHTTP11Config request \<and>
        snd (exchange demoEnv NewHTTP11Config request c1 1)) \<and>
   snd (handleConnection demoEnv NewHTTP11Config (peer [lowercaseClose, lowercaseClose])) = 2"
  by (simp add: parse_lowercaseClose handleConnection_def handleLoop.simps parse_nothing peer_simps
      exchange_def keepAliveOf_def NewHTTP11Config_def HTTP10_def HTTP11_def NeedsStreaming_def HasPrefix_def
      Route_def routes_def handleHello_def CompressResponse_def acceptsGzip_def hget_def NewResponse_def
      shouldCompress_def ToLower_def lower_char_def TrimSpace_def isSpace_def compressibleTypes_def
      minSizeForCompression_def setVary_def WriteResponse_def writeMsg_def Write_def maxRequests_def Let_def)

text \<open>
  Claim C4, amended.  Header names are stored and looked up as received.  For every
  request whose header map has the name \<open>Connection\<close>, spelled so, with a value equal
  to \<open>close\<close> up to letter case, the keep-alive flag is false and the loop does not go
  round again after the response, whatever the configured protocol version.
\<close>

theorem connection_close_exact_name:
  assumes "Headers request ''Connection'' = Some v" and "ToLower v = ''close''"
  shows "\<not> keepAliveOf config request \<and> \<not> snd (exchange e config request c n)"
proof -
  have k: "\<not> keepAliveOf config request" using assms by (simp add: keepAliveOf_def)
  then have "\<not> snd (exchange e config request c n)"
    by (simp add: exchange_def Let_def split: prod.splits option.splits)
  with k show ?thesis by simp
qed

theorem connection_close_exact_name_witness:
  "\<not> keepAliveOf NewHTTP11Config
       \<lparr>Method = ''GET'', Path = ''/hello'', Version = ''HTTP/1.1'',
        Headers = [''Connection'' \<mapsto> ''CLOSE''], Body = []\<rparr> \<and>
   \<not> snd (exchange demoEnv NewHTTP11Config
       \<lparr>Method = ''GET'', Path = ''/hello'', Version = ''HTTP/1.1'',
        Headers = [''Connection'' \<mapsto> ''CLOSE''], Body = []\<rparr> (peer []) 1)"
  using connection_close_exact_name[of "\<lparr>Method = ''GET'', Path = ''/hello'', Version = ''HTTP/1.1'',
        Headers = [''Connection'' \<mapsto> ''CLOSE''], Body = []\<rparr>" "''CLOSE''" NewHTTP11Config demoEnv "peer []" 1]
  by (simp add: ToLower_def lower_char_def)



section \<open>The request body\<close>


lemma isDigit_plain: "isDigit c \<Longrightarrow> \<not> isSpace c \<and> c \<noteq> CHR ''+'' \<and> c \<noteq> CHR ''-''"
  by (auto simp: isDigit_def isSpace_def)






lemma read_body_chunks:
  assumes "0 < length chunk" and "length chunk \<le> 4096"
  shows "n \<le> length cur + k * length chunk \<Longrightarrow> incoming c = replicate k (Data chunk) @ rest
         \<Longrightarrow> \<exists>b c'. read_body c cur n = Inr (b, c') \<and> n \<le> length b"
proof (induction k arbitrary: cur c)
  case 0
  then show ?case by (simp add: read_body.simps[of c cur n])
next
  case (Suc k)
  show ?case
  proof (cases "length cur < n")
    case False
    then show ?thesis by (simp add: read_body.simps[of c cur n])
  next
    case True
    have r: "Read c 4096 = Some (chunk, c\<lparr>incoming := replicate k (Data chunk) @ rest\<rparr>)"
      using Suc.prems(2) assms by (simp add: Read_def)
    have "\<exists>b c'. read_body (c\<lparr>incoming := replicate k (Data chunk) @ rest\<rparr>) (cur @ chunk) n = Inr (b, c') \<and> n \<le> length b"
      using Suc.prems(1) by (intro Suc.IH) auto
    then show ?thesis using True r by (simp add: read_body.simps[of c cur n])
  qed
qed

text \<open>
  Claim C3 says that a request whose total size exceeds \<open>MaxRequestSize\<close> makes the
  parser fail, also when the excess comes from the body a \<open>Content-Length\<close> declares.
  The size check stands in the first loop only: on the request below, a header block
  of a few bytes followed by a body of 1052672 bytes, the parser succeeds and stores
  the whole body.
\<close>

theorem oversized_body_accepted:
  "\<exists>req c'. ParseRequest \<lparr>incoming = Data bigHeader # bigBody, sent = [], writable = None, touched = []\<rparr>
               = Inr (req, c') \<and>
            length (Body req) = 1052672 \<and>
            MaxRequestSize < length bigHeader + length (Body req)"
proof -
  obtain b c' where rb:
    "read_body \<lparr>incoming = bigBody, sent = [], writable = None, touched = []\<rparr> [] 1052672 = Inr (b, c')"
    "1052672 \<le> length b"
    using read_body_chunks[of bigChunk 1052672 "[]" 257
        "\<lparr>incoming = bigBody, sent = [], writable = None, touched = []\<rparr>" "[]"]
    by (auto simp: bigChunk_def bigBody_def)
  show ?thesis
    using rb(2) by (simp add: parse_eval0 bigHeader_def rb(1))
qed



section \<open>Conditional requests\<close>

text \<open>
  Claim C7 as stated (304 if and only if the truncated modification time is not after
  the truncated header instant) fails for a file whose modification time is Go's zero
  time: the check is skipped and the file is sent with status 200.
\<close>

theorem zero_modtime_counterexample:
  "parseHTTPTime (datedEnv 0) (hget (Headers sinceRequest) ''If-Modified-Since'') = Some 63271811045000000000 \<and>
   \<not> TruncateSecond 0 > TruncateSecond 63271811045000000000 \<and>
   (case sent (fst (RouteStream (datedEnv 0) sinceRequest (peer []) True 99)) of
      [Msg r] \<Rightarrow> StatusCode r = 200 \<and> rBody r = ''hello''
    | _ \<Rightarrow> False)"
  by (simp add: datedEnv_def demoEnv_def sinceRequest_def hget_def parseHTTPTime_def TruncateSecond_def
      RouteStream_def ServeFileStream_def path_eval os_Stat_def peer_simps MaxInMemorySize_def
      serveSmallFile_def os_ReadFile_def NewResponse_def CompressResponse_def acceptsGzip_def
      setVary_def writeMsg_def Write_def Let_def)

lemma writeMsg_ok:
  "writable c \<noteq> Some 0 \<Longrightarrow> sent (fst (writeMsg c r)) = sent c @ [Msg r] \<and> snd (writeMsg c r) = None"
  by (auto simp: writeMsg_def Write_def split: option.splits nat.splits)

text \<open>
  Claim C7, amended.  For a request that the file server resolves to an existing file
  (itself, or the \<open>index.html\<close> of a directory) whose modification time \<open>M\<close> is not
  the zero time, with a non-empty \<open>If-Modified-Since\<close> value that parses to \<open>H\<close>: if
  \<open>M\<close> truncated to seconds is not after \<open>H\<close> truncated to seconds, the one thing
  written is the 304 message with \<open>Last-Modified\<close>, \<open>Cache-Control\<close>, \<open>Date\<close>,
  \<open>Server\<close> and the connection headers and an empty body; otherwise nothing written
  has status 304.
\<close>

theorem not_modified_iff:
  assumes "\<not> Contains (Clean (hd (Split (Path req) (CHR ''?'')))) ''..''"
    and "Stat e (Join root (Clean (hd (Split (Path req) (CHR ''?''))))) = Info fi0"
    and "(if IsDir fi0
          then Stat e (Join (Join root (Clean (hd (Split (Path req) (CHR ''?''))))) ''index.html'')
          else Info fi0) = Info fi"
    and "ModTime fi \<noteq> 0"
    and "Headers req ''If-Modified-Since'' = Some h" and "h \<noteq> []"
    and "parseHTTPTime e h = Some H"
    and "writable c \<noteq> Some 0"
  shows "if TruncateSecond (ModTime fi) \<le> TruncateSecond H
         then sent (fst (ServeFileStream e root req c ka n)) =
                sent c @ [Msg \<lparr>rVersion = Version req, StatusCode = 304, Status = ''Not Modified'',
                               rHeaders = connHeaders ka n
                                 [''Last-Modified'' \<mapsto> FormatRFC1123 e (TruncateSecond (ModTime fi)),
                                  ''Cache-Control'' \<mapsto> ''public, max-age=3600'',
                                  ''Date'' \<mapsto> FormatRFC1123 e (Now e),
                                  ''Server'' \<mapsto> ''GoWebServer/1.0''],
                               rBody = []\<rparr>] \<and>
              snd (ServeFileStream e root req c ka n) = None
         else list_all (announces (\<lambda>code h. code \<noteq> 304))
                (drop (length (sent c)) (sent (fst (ServeFileStream e root req c ka n))))"
proof -
  define fp where "fp = Join root (Clean (hd (Split (Path req) (CHR ''?''))))"
  define fp' where "fp' = (if IsDir fi0 then Join fp ''index.html'' else fp)"
  define c2 where "c2 = c\<lparr>touched := touched c @ (if IsDir fi0 then [fp, Join fp ''index.html''] else [fp])\<rparr>"
  have S: "ServeFileStream e root req c ka n = deliver e req c2 fp' fi ka n"
    using assms(1-3) unfolding ServeFileStream_cases Let_def
    by (auto simp: fp_def fp'_def c2_def split: stat_result.splits)
  have c2: "sent c2 = sent c" "writable c2 \<noteq> Some 0" using assms(8) by (simp_all add: c2_def)
  have chk: "hget (Headers req) ''If-Modified-Since'' = h" using assms(5) by (simp add: hget_def)
  show ?thesis
  proof (cases "TruncateSecond (ModTime fi) \<le> TruncateSecond H")
    case True
    then have "deliver e req c2 fp' fi ka n =
                 sendNotModified e c2 (TruncateSecond (ModTime fi)) (Version req) ka n"
      using assms(4,6,7) by (simp add: deliver_def chk)
    then show ?thesis using True c2 writeMsg_ok[OF c2(2)]
      by (simp add: S sendNotModified_def Let_def NewResponse_def)
  next
    case False
    then have "deliver e req c2 fp' fi ka n =
                 (if Size fi \<le> MaxInMemorySize
                  then serveSmallFile e c2 fp' (Size fi) (TruncateSecond (ModTime fi)) (Version req) req ka n
                  else serveLargeFile e req c2 fp' (Size fi) (TruncateSecond (ModTime fi)) (Version req) ka n)"
      using assms(4,6,7) by (simp add: deliver_def chk)
    then have "emits (\<lambda>code h. code \<noteq> 304) c2 (fst (deliver e req c2 fp' fi ka n))"
      by (simp add: serveSmallFile_emits serveLargeFile_emits)
    then have "emits (\<lambda>code h. code \<noteq> 304) c (fst (ServeFileStream e root req c ka n))"
      using c2(1) by (simp add: S emits_def)
    then show ?thesis using False by (simp add: emits_drop)
  qed
qed

theorem not_modified_iff_witness:
  "sent (fst (ServeFileStream (datedEnv 1000000000) publicRoot sinceRequest (peer []) False 0)) =
     [Msg \<lparr>rVersion = ''HTTP/1.1'', StatusCode = 304, Status = ''Not Modified'',
           rHeaders = [''Last-Modified'' \<mapsto> [], ''Cache-Control'' \<mapsto> ''public, max-age=3600'',
                       ''Date'' \<mapsto> [], ''Server'' \<mapsto> ''GoWebServer/1.0'', ''Connection'' \<mapsto> ''close''],
           rBody = []\<rparr>]"
proof -
  have p: "Join publicRoot (Clean (hd (Split (Path sinceRequest) (CHR ''?'')))) = ''public/static/a.txt''"
    "\<not> Contains (Clean (hd (Split (Path sinceRequest) (CHR ''?'')))) ''..''"
    by (simp_all add: sinceRequest_def path_eval)
  show ?thesis
    using not_modified_iff[of sinceRequest "datedEnv 1000000000" publicRoot
        "\<lparr>IsDir = False, ModTime = 1000000000, Size = 5\<rparr>" "\<lparr>IsDir = False, ModTime = 1000000000, Size = 5\<rparr>"
        sinceHeader 63271811045000000000 "peer []" False 0] p(2)
    by (simp add: path_eval datedEnv_def demoEnv_def sinceRequest_def sinceHeader_def parseHTTPTime_def
        peer_simps TruncateSecond_def connHeaders_def)
qed



section \<open>Range requests\<close>

lemma Split_nonempty: "Split s sep \<noteq> []"
  by (induction s) (auto split: list.splits)

lemma Split_no_sep: "sep \<notin> set s \<Longrightarrow> Split s sep = [s]"
  by (induction s) auto

lemma Split_append_sep: "sep \<notin> set a \<Longrightarrow> Split (a @ sep # b) sep = a # Split b sep"
  by (induction a) auto

lemma Split_single: "Split s sep = [a] \<Longrightarrow> s = a \<and> sep \<notin> set a"
proof (induction s arbitrary: a)
  case Nil
  then show ?case by simp
next
  case (Cons c s)
  show ?case
  proof (cases "c = sep")
    case True
    then show ?thesis using Cons.prems Split_nonempty[of s sep] by simp
  next
    case False
    then obtain p where "Split s sep = [p]" "a = c # p"
      using Cons.prems Split_nonempty[of s sep] by (auto split: list.splits)
    then show ?thesis using Cons.IH[of p] False by simp
  qed
qed

lemma Split_two: "Split s sep = [a, b] \<Longrightarrow> s = a @ sep # b \<and> sep \<notin> set a \<and> sep \<notin> set b"
proof (induction s arbitrary: a)
  case Nil
  then show ?case by simp
next
  case (Cons c s)
  show ?case
  proof (cases "c = sep")
    case True
    then have "a = []" "Split s sep = [b]" using Cons.prems by simp_all
    then show ?thesis using Split_single[of s sep b] True by simp
  next
    case False
    then obtain p where "Split s sep = [p, b]" "a = c # p"
      using Cons.prems Split_nonempty[of s sep] by (auto split: list.splits)
    then show ?thesis using Cons.IH[of p] False by simp
  qed
qed

lemma digit_cases: "d < 10 \<Longrightarrow> d = 0 \<or> d = 1 \<or> d = 2 \<or> d = 3 \<or> d = 4 \<or> d = 5 \<or> d = 6 \<or> d = 7 \<or> d = 8 \<or> d = (9::nat)"
  by arith

lemma digit_char_props:
  assumes "d < 10"
  shows "isDigit (digit_char d)" and "digit_val (digit_char d) = d" and "digit_char d \<noteq> CHR ''-''"
  using digit_cases[OF assms]
  by (auto simp: digit_char_def isDigit_def digit_val_def)

lemma digits_val_snoc: "digits_val (xs @ [c]) = 10 * digits_val xs + digit_val c"
  by (simp add: digits_val_def)

lemma show_nat_props:
  "list_all isDigit (show_nat n) \<and> show_nat n \<noteq> [] \<and> digits_val (show_nat n) = n \<and>
   CHR ''-'' \<notin> set (show_nat n)"
proof (induction n rule: show_nat.induct)
  case (1 n)
  show ?case
  proof (cases "n < 10")
    case True
    then show ?thesis using digit_char_props[of n]
      by (simp add: show_nat.simps[of n] digits_val_def)
  next
    case False
    then show ?thesis using 1 digit_char_props[of "n mod 10"]
      by (simp add: show_nat.simps[of n] digits_val_snoc)
  qed
qed

lemma ParseInt_show_nat: "int n \<le> maxInt64 \<Longrightarrow> ParseInt (show_nat n) = Some (int n)"
proof -
  assume b: "int n \<le> maxInt64"
  obtain d ds where v: "show_nat n = d # ds" using show_nat_props[of n] by (cases "show_nat n") auto
  have "isDigit d" using show_nat_props[of n] v by simp
  then show ?thesis using show_nat_props[of n] b isDigit_plain[of d]
    by (simp add: ParseInt_def v[symmetric]) (simp add: v)
qed

lemma show_int_nonneg: "0 \<le> i \<Longrightarrow> show_int i = show_nat (nat i)"
  by (simp add: show_int_def)


lemma HasPrefix_iff: "HasPrefix s p \<longleftrightarrow> (\<exists>t. s = p @ t)"
  by (auto simp: HasPrefix_def) (metis append_take_drop_id)

lemma parseRange_sound:
  assumes "parseRangeHeader rh N = Inr (S, E)"
  shows "satisfiable_range rh N S E"
proof -
  from assms have hp: "HasPrefix rh ''bytes=''"
    by (auto simp: parseRangeHeader_def split: if_splits)
  then obtain spec where rh: "rh = ''bytes='' @ spec" by (auto simp: HasPrefix_iff)
  have tp: "TrimPrefix rh ''bytes='' = spec" using hp by (simp add: TrimPrefix_def rh)
  from assms hp obtain a b where sp: "Split spec (CHR ''-'') = [a, b]"
    by (auto simp: parseRangeHeader_def tp split: list.splits)
  from Split_two[OF sp] have spec: "spec = a @ ''-'' @ b" "CHR ''-'' \<notin> set a" "CHR ''-'' \<notin> set b"
    by simp_all
  from assms hp sp have
    "ParseInt a = Some S \<and> (if b = [] then E = N - 1 else ParseInt b = Some E) \<and> 0 \<le> S \<and> S \<le> E \<and> E < N"
    by (auto simp: parseRangeHeader_def tp split: option.splits if_splits)
  then show ?thesis unfolding satisfiable_range_def using rh spec by blast
qed

lemma parseRange_form:
  assumes "CHR ''-'' \<notin> set a" and "CHR ''-'' \<notin> set b"
  shows "parseRangeHeader (''bytes='' @ a @ ''-'' @ b) N =
           (case ParseInt a of
              None \<Rightarrow> Inl BadStart
            | Some start \<Rightarrow>
                (case (if b = [] then Some (N - 1) else ParseInt b) of
                   None \<Rightarrow> Inl BadEnd
                 | Some end \<Rightarrow>
                     if start < 0 \<or> end \<ge> N \<or> start > end then Inl OutOfBounds
                     else Inr (start, end)))"
proof -
  have "Split (a @ ''-'' @ b) (CHR ''-'') = [a, b]"
    using assms by (simp add: Split_append_sep Split_no_sep)
  then show ?thesis
    by (simp add: parseRangeHeader_def HasPrefix_def TrimPrefix_def)
qed

lemma parseRange_complete:
  assumes "satisfiable_range rh N S E"
  shows "parseRangeHeader rh N = Inr (S, E)"
proof -
  from assms obtain a b where ab: "rh = ''bytes='' @ a @ ''-'' @ b" "CHR ''-'' \<notin> set a" "CHR ''-'' \<notin> set b"
    "ParseInt a = Some S" "if b = [] then E = N - 1 else ParseInt b = Some E" "0 \<le> S" "S \<le> E" "E < N"
    unfolding satisfiable_range_def by blast
  show ?thesis unfolding ab(1) parseRange_form[OF ab(2,3)] using ab(4-8)
    by (auto split: if_splits)
qed

lemma parseRange_iff: "parseRangeHeader rh N = Inr (S, E) \<longleftrightarrow> satisfiable_range rh N S E"
  using parseRange_sound parseRange_complete by blast

lemma ParseInt_show_nat_any:
  "ParseInt (show_nat n) = (if int n \<le> maxInt64 then Some (int n) else None)"
proof -
  obtain d ds where v: "show_nat n = d # ds" using show_nat_props[of n] by (cases "show_nat n") auto
  have "isDigit d" using show_nat_props[of n] v by simp
  then show ?thesis using show_nat_props[of n] isDigit_plain[of d]
    by (simp add: ParseInt_def v[symmetric]) (simp add: v)
qed

lemma parseRange_decimal:
  assumes "0 \<le> S" and "0 \<le> E" and "N \<le> maxInt64"
  shows "parseRangeHeader (''bytes='' @ show_int S @ ''-'' @ show_int E) N =
           (if S \<le> E \<and> E < N then Inr (S, E) else
            if S \<le> maxInt64 \<and> E \<le> maxInt64 then Inl OutOfBounds
            else if S \<le> maxInt64 then Inl BadEnd else Inl BadStart)"
  using assms show_nat_props[of "nat S"] show_nat_props[of "nat E"]
    parseRange_form[of "show_nat (nat S)" "show_nat (nat E)" N]
  by (simp add: show_int_nonneg ParseInt_show_nat_any)

lemma parseRange_open:
  assumes "0 \<le> S" and "N \<le> maxInt64"
  shows "parseRangeHeader (''bytes='' @ show_int S @ ''-'') N =
           (if S < N then Inr (S, N - 1) else if S \<le> maxInt64 then Inl OutOfBounds else Inl BadStart)"
  using assms show_nat_props[of "nat S"] parseRange_form[of "show_nat (nat S)" "[]" N]
  by (simp add: show_int_nonneg ParseInt_show_nat_any)

lemma parseRange_negative:
  assumes "S < 0 \<or> E < 0"
  shows "parseRangeHeader (''bytes='' @ show_int S @ ''-'' @ show_int E) N = Inl BadSpec"
proof (cases "S < 0")
  case True
  have "Split (show_int S @ ''-'' @ show_int E) (CHR ''-'') =
          [] # show_nat (nat (- S)) # Split (show_int E) (CHR ''-'')"
    using True show_nat_props[of "nat (- S)"] by (simp add: show_int_def Split_append_sep)
  then show ?thesis using Split_nonempty[of "show_int E" "CHR ''-''"]
    by (simp add: parseRangeHeader_def HasPrefix_def TrimPrefix_def split: list.splits)
next
  case False
  then have E: "E < 0" using assms by simp
  have "Split (show_int S @ ''-'' @ show_int E) (CHR ''-'') =
          [show_nat (nat S), [], show_nat (nat (- E))]"
    using False E show_nat_props[of "nat S"] show_nat_props[of "nat (- E)"]
    by (simp add: show_int_def Split_append_sep Split_no_sep)
  then show ?thesis
    by (simp add: parseRangeHeader_def HasPrefix_def TrimPrefix_def)
qed


lemma serveLargeFile_206:
  assumes "OpenFile e fp = Some content" and "N = int (length content)" and "writable c = None"
    and "hget (Headers req) ''Range'' = rh" and "rh \<noteq> []"
    and "parseRangeHeader rh N = Inr (S, E)"
  shows "\<exists>r. sent (fst (serveLargeFile e req c fp N m v ka n)) =
               sent c @ [Msg r, Raw (take (nat (E - S + 1)) (drop (nat S) content))] \<and>
             StatusCode r = 206 \<and> rBody r = [] \<and>
             rHeaders r ''Content-Range'' =
               Some (''bytes '' @ show_int S @ ''-'' @ show_int E @ ''/'' @ show_int N) \<and>
             rHeaders r ''Content-Length'' = Some (show_int (E - S + 1)) \<and>
             snd (serveLargeFile e req c fp N m v ka n) = None"
proof -
  have b: "0 \<le> S" "S \<le> E" "E < N"
    using parseRange_sound[OF assms(6)] by (auto simp: satisfiable_range_def)
  then have len: "\<not> int (length (take (nat (E - S + 1)) (drop (nat S) content))) < E - S + 1"
    using assms(2) by auto
  show ?thesis
    using assms(1,3,4,5,6) len
    by (simp add: serveLargeFile_def os_Open_def sendRangeFile_def writeMsg_def Write_def
        Let_def NewResponse_def connHeaders_def del: length_take length_drop)
qed

lemma serveLargeFile_416:
  assumes "OpenFile e fp = Some content" and "writable c = None"
    and "hget (Headers req) ''Range'' = rh" and "rh \<noteq> []"
    and "parseRangeHeader rh N = Inl err"
  shows "\<exists>r. sent (fst (serveLargeFile e req c fp N m v ka n)) = sent c @ [Msg r] \<and>
             StatusCode r = 416 \<and> rBody r = [] \<and>
             rHeaders r ''Content-Range'' = Some (''bytes */'' @ show_int N) \<and>
             snd (serveLargeFile e req c fp N m v ka n) = Some RangeInvalid"
  using assms
  by (simp add: serveLargeFile_def os_Open_def writeMsg_def Write_def
      Let_def NewResponse_def connHeaders_def)

text \<open>
  Claim C6 as stated (every malformed \<open>Range\<close> header yields 416) fails for a \<open>Range\<close>
  header with an empty value: the parser stores it, the file server takes the empty
  string for "no header" and sends the whole file with status 200.
\<close>

lemma parse_emptyRange:
  "incoming c = Data emptyRangeRequest # rest \<Longrightarrow> ParseRequest c =
     Inr (\<lparr>Method = ''GET'', Path = ''/static/big.bin'', Version = ''HTTP/1.1'',
           Headers = [''Range'' \<mapsto> []], Body = []\<rparr>, c\<lparr>incoming := rest\<rparr>)"
  by (simp add: parse_eval emptyRangeRequest_def)

theorem empty_range_counterexample:
  "(case ParseRequest (peer [emptyRangeRequest]) of
      Inl err \<Rightarrow> False
    | Inr (request, c1) \<Rightarrow> Headers request ''Range'' = Some []) \<and>
   (case sent (fst (handleConnection largeEnv NewHTTP11Config (peer [emptyRangeRequest]))) of
      [Msg r, Raw bs] \<Rightarrow> StatusCode r = 200 \<and> bs = largeFile
    | _ \<Rightarrow> False)"
  by (simp add: parse_emptyRange handleConnection_def handleLoop.simps parse_nothing peer_simps
      exchange_def keepAliveOf_def NewHTTP11Config_def HTTP10_def HTTP11_def NeedsStreaming_def
      RouteStream_def ServeFileStream_def path_eval os_Stat_def largeEnv_def demoEnv_def hget_def
      MaxInMemorySize_def serveLargeFile_def os_Open_def sendFullFile_def writeMsg_def
      Write_def NewResponse_def maxRequests_def Let_def)

text \<open>
  Claim C6, amended.  \<open>serveLargeFile\<close>, for a file of \<open>N\<close> bytes that opens and a
  non-empty \<open>Range\<close> value: if the value is a satisfiable range \<open>S\<close>-\<open>E\<close>, the
  response is 206 with \<open>Content-Range: bytes S-E/N\<close>, \<open>Content-Length\<close> \<open>E - S + 1\<close>, an
  empty message body followed by exactly the bytes \<open>S\<close> to \<open>E\<close> of the file; if it is
  not, the response is 416 with \<open>Content-Range: bytes */N\<close> and no body.  The decimal
  forms \<open>bytes=S-E\<close> and \<open>bytes=S-\<close> with \<open>0 \<le> S \<le> E < N\<close> are satisfiable (the
  second with \<open>E = N - 1\<close>); \<open>bytes=S-E\<close> with \<open>S < 0\<close>, \<open>E \<ge> N\<close> or \<open>S > E\<close> is not.
\<close>

theorem range_responses:
  assumes "OpenFile e fp = Some content" and "N = int (length content)" and "N \<le> maxInt64"
    and "writable c = None" and "hget (Headers req) ''Range'' = rh" and "rh \<noteq> []"
  shows
   "(\<forall>S E. satisfiable_range rh N S E \<longrightarrow>
       (\<exists>r. sent (fst (serveLargeFile e req c fp N m v ka n)) =
               sent c @ [Msg r, Raw (take (nat (E - S + 1)) (drop (nat S) content))] \<and>
            StatusCode r = 206 \<and> rBody r = [] \<and>
            rHeaders r ''Content-Range'' =
              Some (''bytes '' @ show_int S @ ''-'' @ show_int E @ ''/'' @ show_int N) \<and>
            rHeaders r ''Content-Length'' = Some (show_int (E - S + 1)) \<and>
            snd (serveLargeFile e req c fp N m v ka n) = None)) \<and>
    ((\<forall>S E. \<not> satisfiable_range rh N S E) \<longrightarrow>
       (\<exists>r. sent (fst (serveLargeFile e req c fp N m v ka n)) = sent c @ [Msg r] \<and>
            StatusCode r = 416 \<and> rBody r = [] \<and>
            rHeaders r ''Content-Range'' = Some (''bytes */'' @ show_int N))) \<and>
    (\<forall>S E. 0 \<le> S \<and> S \<le> E \<and> E < N \<longrightarrow>
       satisfiable_range (''bytes='' @ show_int S @ ''-'' @ show_int E) N S E \<and>
       satisfiable_range (''bytes='' @ show_int S @ ''-'') N S (N - 1)) \<and>
    (\<forall>S E S' E'. S < 0 \<or> E \<ge> N \<or> S > E \<longrightarrow>
       \<not> satisfiable_range (''bytes='' @ show_int S @ ''-'' @ show_int E) N S' E')"
proof (intro conjI allI impI)
  fix S E
  assume "satisfiable_range rh N S E"
  then have "parseRangeHeader rh N = Inr (S, E)" by (rule parseRange_complete)
  from serveLargeFile_206[OF assms(1,2,4,5,6) this]
  show "\<exists>r. sent (fst (serveLargeFile e req c fp N m v ka n)) =
               sent c @ [Msg r, Raw (take (nat (E - S + 1)) (drop (nat S) content))] \<and>
            StatusCode r = 206 \<and> rBody r = [] \<and>
            rHeaders r ''Content-Range'' =
              Some (''bytes '' @ show_int S @ ''-'' @ show_int E @ ''/'' @ show_int N) \<and>
            rHeaders r ''Content-Length'' = Some (show_int (E - S + 1)) \<and>
            snd (serveLargeFile e req c fp N m v ka n) = None" .
next
  assume none: "\<forall>S E. \<not> satisfiable_range rh N S E"
  obtain err where "parseRangeHeader rh N = Inl err"
    using none parseRange_sound[of rh N] by (cases "parseRangeHeader rh N") auto
  from serveLargeFile_416[OF assms(1,4,5,6) this]
  show "\<exists>r. sent (fst (serveLargeFile e req c fp N m v ka n)) = sent c @ [Msg r] \<and>
            StatusCode r = 416 \<and> rBody r = [] \<and>
            rHeaders r ''Content-Range'' = Some (''bytes */'' @ show_int N)" by blast
next
  fix S E
  assume a: "0 \<le> S \<and> S \<le> E \<and> E < N"
  then show "satisfiable_range (''bytes='' @ show_int S @ ''-'' @ show_int E) N S E"
    using parseRange_decimal[of S E N] assms(3) by (intro parseRange_sound) simp
  from a show "satisfiable_range (''bytes='' @ show_int S @ ''-'') N S (N - 1)"
    using parseRange_open[of S N] assms(3) by (intro parseRange_sound) simp
next
  fix S E S' E'
  assume a: "S < 0 \<or> E \<ge> N \<or> S > E"
  have "parseRangeHeader (''bytes='' @ show_int S @ ''-'' @ show_int E) N \<noteq> Inr (S', E')"
  proof (cases "S < 0 \<or> E < 0")
    case True
    then show ?thesis by (simp only: parseRange_negative) simp
  next
    case False
    then show ?thesis using a parseRange_decimal[of S E N] assms(3) by auto
  qed
  then show "\<not> satisfiable_range (''bytes='' @ show_int S @ ''-'' @ show_int E) N S' E'"
    using parseRange_complete by blast
qed


lemma show_int_small: "show_int 1 = ''1''" "show_int 3 = ''3''" "show_int 5 = ''5''"
  by (simp_all add: show_int_def show_nat.simps digit_char_def)

theorem range_responses_witness:
  "\<exists>r. sent (fst (serveLargeFile demoEnv rangeRequest (peer []) ''public/static/a.txt'' 5 0 ''HTTP/1.1'' False 0)) =
          [Msg r, Raw ''ell''] \<and>
        StatusCode r = 206 \<and> rHeaders r ''Content-Range'' = Some ''bytes 1-3/5'' \<and>
        rHeaders r ''Content-Length'' = Some ''3''"
proof -
  have h: "OpenFile demoEnv ''public/static/a.txt'' = Some ''hello''" "(5::int) = int (length ''hello'')"
    "(5::int) \<le> maxInt64" "writable (peer []) = None" "hget (Headers rangeRequest) ''Range'' = ''bytes=1-3''"
    "''bytes=1-3'' \<noteq> []"
    by (simp_all add: demoEnv_def maxInt64_def peer_simps rangeRequest_def hget_def)
  note t = range_responses[OF h, of 0 "''HTTP/1.1''" False 0]
  have "satisfiable_range (''bytes='' @ show_int 1 @ ''-'' @ show_int 3) 5 1 3"
    using t[THEN conjunct2, THEN conjunct2, THEN conjunct1, rule_format, of 1 3] by simp
  then have "satisfiable_range ''bytes=1-3'' 5 1 3" by (simp add: show_int_small)
  from t[THEN conjunct1, rule_format, OF this] show ?thesis
    by (auto simp: show_int_small peer_simps)
qed


end
